theory Spec2Isabelle
  imports Complex_Main
begin

section \<open>The promo request simulator of the Factory Control Tower (src/app.py)\<close>

text \<open>
  The development embeds \<^verbatim>\<open>simulate_request\<close> (src/app.py, lines 311-456) and the
  tables it reads.  Each pandas data frame is the list of its rows, in row order.
  Identifiers (line, product, material) are only ever compared for equality by the
  function; they are natural numbers here.  Case counts are Python integers, hence
  \<open>int\<close>.  Calendar dates are day numbers (\<open>int\<close>), ordered as the dates are.
  Material quantities (\<^verbatim>\<open>qty_per_case\<close>, \<^verbatim>\<open>on_hand_qty\<close>) have the number type \<open>'q\<close> of
  their columns, and Python floats the type \<open>'f\<close>; the arithmetic that the function
  applies to them is a parameter (\<open>num_ops\<close> below), so that every result holds for the
  arithmetic of IEEE doubles, with its rounding, as for any other.
\<close>

subsection \<open>The snapshot tables\<close>

type_synonym date = int

text \<open>Row of \<^verbatim>\<open>data["schedule"]\<close>.\<close>

record schedule_entry =
  s_line_id :: nat
  production_date :: date
  s_product_id :: nat
  planned_qty_cases :: int
  is_firm :: bool

text \<open>Row of \<^verbatim>\<open>data["lines"]\<close>.\<close>

record line_row =
  l_line_id :: nat
  line_name :: string
  daily_capacity_cases :: int

text \<open>Row of \<^verbatim>\<open>data["capability"]\<close>.\<close>

record capability_row =
  c_line_id :: nat
  c_product_id :: nat
  rate_cases_per_hour :: int

text \<open>
  Row of \<^verbatim>\<open>data["bom"]\<close> (the bill of materials joined with the material's name and
  lead time; the lead time is nullable in the database).
\<close>

record 'q bom_row =
  b_product_id :: nat
  b_material_id :: nat
  qty_per_case :: 'q
  material_name :: string
  supplier_lead_time_days :: "int option"

text \<open>
  Row of \<^verbatim>\<open>data["inventory"]\<close>.  The source tests \<^verbatim>\<open>pd.notnull(r["on_hand_qty"])\<close>, so
  the quantity is optional: \<open>None\<close> is every value that pandas counts as null (\<^verbatim>\<open>None\<close>,
  \<^verbatim>\<open>NaN\<close>), and the values of \<open>'q\<close> are the non-null ones.
\<close>

record 'q inventory_row =
  i_material_id :: nat
  on_hand_qty :: "'q option"

text \<open>
  The \<^verbatim>\<open>data\<close> dictionary.  Its \<^verbatim>\<open>"products"\<close> entry is not read by
  \<^verbatim>\<open>simulate_request\<close> and is left out.
\<close>

record 'q snapshot =
  schedule :: "schedule_entry list"
  lines :: "line_row list"
  capability :: "capability_row list"
  bom :: "'q bom_row list"
  inventory :: "'q inventory_row list"

subsection \<open>The result\<close>

text \<open>One dictionary appended to \<^verbatim>\<open>plan_rows\<close> (lines 385-391).\<close>

record plan_row =
  p_line_id :: nat
  p_production_date :: date
  allocated_cases :: int
  used_headroom :: int
  bumped_flexible :: int

text \<open>
  The entries of \<^verbatim>\<open>material_blockers\<close> are strings in the source.  A formatted string
  is kept as the values it is formatted from:
  \<^item> \<open>MaterialShort name shortage lead\<close> is
    \<^verbatim>\<open>f"{material_name} short by {shortage:,.0f} (lead {supplier_lead_time_days}d)"\<close>;
  \<^item> \<open>NoBOM\<close> is \<^verbatim>\<open>"No BOM for this SKU."\<close>;
  \<^item> \<open>NoLineCanRun\<close> is \<^verbatim>\<open>"No line can run this product"\<close>.
\<close>

datatype 'f material_blocker =
    MaterialShort string 'f "int option"
  | NoBOM
  | NoLineCanRun

text \<open>
  \<open>NoCapableLine\<close> is \<^verbatim>\<open>"No capable line found"\<close>; \<open>ShortBefore remaining due\<close> is
  \<^verbatim>\<open>f"Short {remaining} cases before {due_date_obj}"\<close>.
\<close>

datatype capacity_blocker =
    NoCapableLine
  | ShortBefore int date

text \<open>The clauses joined into the message of a request that is not approved.\<close>

datatype 'f message_bit =
    CanCover int date
  | RemainingNeed int
  | MaterialConstraints "'f material_blocker list"

datatype 'f message =
    MsgNoLine
  | MsgApproved int date
  | MsgBits "'f message_bit list"

record 'f sim_result =
  can_fulfill :: bool
  allocated_total :: int
  remaining :: int
  plan_rows :: "plan_row list"
  material_blockers :: "'f material_blocker list"
  capacity_blockers :: "capacity_blocker list"
  message :: "'f message"

text \<open>
  The only exception the function raises on well-typed tables comes from
  \<^verbatim>\<open>pd.to_datetime(due_date_str)\<close> on a string that is no date.
\<close>

datatype sim_error = DateParseError

subsection \<open>The allocator\<close>

text \<open>
  \<^verbatim>\<open>Series.unique()\<close>: the distinct values in order of first appearance
  (\<open>remdups\<close> alone keeps the last appearance of each value).
\<close>

definition unique :: "'a list \<Rightarrow> 'a list" where
  "unique xs = rev (remdups (rev xs))"

text \<open>Line 333: the records with \<^verbatim>\<open>prod_date_only <= due_date_obj\<close>.\<close>

definition sched_window :: "date \<Rightarrow> 'q snapshot \<Rightarrow> schedule_entry list" where
  "sched_window due_date_obj data =
     filter (\<lambda>e. production_date e \<le> due_date_obj) (schedule data)"

text \<open>Line 336.\<close>

definition capable_lines :: "nat \<Rightarrow> 'q snapshot \<Rightarrow> nat list" where
  "capable_lines product_id data =
     unique (map c_line_id (filter (\<lambda>c. c_product_id c = product_id) (capability data)))"

text \<open>Line 352: \<^verbatim>\<open>sorted(sched_window["prod_date_only"].unique())\<close>.\<close>

definition window_dates :: "schedule_entry list \<Rightarrow> date list" where
  "window_dates window = sort (unique (map production_date window))"

text \<open>Lines 368-371.\<close>

definition todays_runs :: "schedule_entry list \<Rightarrow> nat \<Rightarrow> date \<Rightarrow> schedule_entry list" where
  "todays_runs window line_id this_date =
     filter (\<lambda>e. s_line_id e = line_id \<and> production_date e = this_date) window"

text \<open>Line 373.\<close>

definition total_planned :: "schedule_entry list \<Rightarrow> int" where
  "total_planned runs =
     (if length runs \<noteq> 0 then sum_list (map planned_qty_cases runs) else 0)"

text \<open>Line 374.\<close>

definition headroom :: "int \<Rightarrow> int \<Rightarrow> int" where
  "headroom daily_capacity planned = max (daily_capacity - planned) 0"

text \<open>Line 377.\<close>

definition flex_cases :: "schedule_entry list \<Rightarrow> int" where
  "flex_cases runs =
     (if length runs \<noteq> 0
      then sum_list (map planned_qty_cases (filter (\<lambda>e. \<not> is_firm e) runs))
      else 0)"

text \<open>
  The body of the inner loop after its \<^verbatim>\<open>break\<close> test (lines 360-391) for one line and
  one date: \<open>None\<close> where the source executes \<^verbatim>\<open>continue\<close> (no row of \<^verbatim>\<open>lines_df\<close> for the
  line, or nothing possible that day), otherwise the row appended to the plan.
\<close>

definition line_day ::
  "line_row list \<Rightarrow> schedule_entry list \<Rightarrow> date \<Rightarrow> nat \<Rightarrow> int \<Rightarrow> plan_row option" where
  "line_day lines_df window this_date line_id rem =
     (case filter (\<lambda>l. l_line_id l = line_id) lines_df of
        [] \<Rightarrow> None
      | line_cap_row # _ \<Rightarrow>
          (let daily_capacity = daily_capacity_cases line_cap_row;
               runs = todays_runs window line_id this_date;
               hr = headroom daily_capacity (total_planned runs);
               possible_today = hr + flex_cases runs
           in if possible_today \<le> 0 then None
              else (let allocate_now = min possible_today rem
                    in Some \<lparr> p_line_id = line_id,
                              p_production_date = this_date,
                              allocated_cases = allocate_now,
                              used_headroom = min hr allocate_now,
                              bumped_flexible = max 0 (allocate_now - hr) \<rparr>)))"

text \<open>
  The inner loop (lines 356-393) over the capable lines still to visit.  The state is
  the pair of \<^verbatim>\<open>remaining\<close> and \<^verbatim>\<open>plan_rows\<close>; \<^verbatim>\<open>break\<close> returns the state as it is.
\<close>

fun alloc_lines ::
  "line_row list \<Rightarrow> schedule_entry list \<Rightarrow> date \<Rightarrow> nat list \<Rightarrow> int \<times> plan_row list
     \<Rightarrow> int \<times> plan_row list" where
  "alloc_lines lines_df window this_date [] st = st"
| "alloc_lines lines_df window this_date (line_id # rest) (rem, plan) =
     (if rem \<le> 0 then (rem, plan)
      else (case line_day lines_df window this_date line_id rem of
              None \<Rightarrow> alloc_lines lines_df window this_date rest (rem, plan)
            | Some row \<Rightarrow>
                alloc_lines lines_df window this_date rest
                  (rem - allocated_cases row, plan @ [row])))"

text \<open>The outer loop (lines 352-393) over the dates still to visit.\<close>

fun alloc_dates ::
  "line_row list \<Rightarrow> schedule_entry list \<Rightarrow> nat list \<Rightarrow> date list \<Rightarrow> int \<times> plan_row list
     \<Rightarrow> int \<times> plan_row list" where
  "alloc_dates lines_df window capable [] st = st"
| "alloc_dates lines_df window capable (this_date # rest) (rem, plan) =
     (if rem \<le> 0 then (rem, plan)
      else alloc_dates lines_df window capable rest
             (alloc_lines lines_df window this_date capable (rem, plan)))"

subsection \<open>The arithmetic of the material check\<close>

text \<open>
  The operations that lines 402 and 410-413 apply to material quantities:
  \<^item> \<open>col_times q n\<close> is \<^verbatim>\<open>sku_bom["qty_per_case"] * allocated_total\<close> on one cell (the
    column's product with a Python integer);
  \<^item> \<open>to_float q\<close> is \<^verbatim>\<open>float(...)\<close> of a cell;
  \<^item> \<open>f_zero\<close> is the float \<^verbatim>\<open>0.0\<close>;
  \<^item> \<open>f_gt x y\<close> is \<^verbatim>\<open>x > y\<close> and \<open>f_minus x y\<close> is \<^verbatim>\<open>x - y\<close> on Python floats.
  For a \<^verbatim>\<open>float64\<close> column these are the operations of IEEE doubles, rounding included.
\<close>

record ('q, 'f) num_ops =
  col_times :: "'q \<Rightarrow> int \<Rightarrow> 'q"
  to_float :: "'q \<Rightarrow> 'f"
  f_zero :: 'f
  f_gt :: "'f \<Rightarrow> 'f \<Rightarrow> bool"
  f_minus :: "'f \<Rightarrow> 'f \<Rightarrow> 'f"

subsection \<open>The material check\<close>

text \<open>
  A row of \<^verbatim>\<open>merged\<close> (lines 402-408), restricted to the columns the loop reads:
  the BOM row with its \<^verbatim>\<open>needed_qty\<close>, and the \<^verbatim>\<open>on_hand_qty\<close> of one matching inventory
  row, null when the left join found none.
\<close>

record 'q merged_row =
  m_material_name :: string
  m_supplier_lead_time_days :: "int option"
  needed_qty :: 'q
  m_on_hand_qty :: "'q option"

text \<open>
  Line 402 and \<^verbatim>\<open>pd.merge(sku_bom, inv_df, on="material_id", how="left")\<close> for one BOM
  row: one merged row for each inventory row of the material, in inventory order, and a
  single row with a null quantity when there is none.
\<close>

definition merge_left ::
  "('q, 'f) num_ops \<Rightarrow> 'q inventory_row list \<Rightarrow> int \<Rightarrow> 'q bom_row \<Rightarrow> 'q merged_row list" where
  "merge_left ops inv_df allocated b =
     (let needed = col_times ops (qty_per_case b) allocated;
          hits = filter (\<lambda>i. i_material_id i = b_material_id b) inv_df
      in if hits = []
         then [\<lparr> m_material_name = material_name b,
                  m_supplier_lead_time_days = supplier_lead_time_days b,
                  needed_qty = needed, m_on_hand_qty = None \<rparr>]
         else map (\<lambda>i. \<lparr> m_material_name = material_name b,
                         m_supplier_lead_time_days = supplier_lead_time_days b,
                         needed_qty = needed, m_on_hand_qty = on_hand_qty i \<rparr>) hits)"

text \<open>Line 400.\<close>

definition sku_bom :: "nat \<Rightarrow> 'q snapshot \<Rightarrow> 'q bom_row list" where
  "sku_bom product_id data = filter (\<lambda>b. b_product_id b = product_id) (bom data)"

text \<open>The loop of lines 409-416 over the merged rows, appending to \<^verbatim>\<open>mat_blockers\<close>.\<close>

fun shortage_loop ::
  "('q, 'f) num_ops \<Rightarrow> 'q merged_row list \<Rightarrow> 'f material_blocker list
     \<Rightarrow> 'f material_blocker list" where
  "shortage_loop ops [] mat_blockers = mat_blockers"
| "shortage_loop ops (r # rest) mat_blockers =
     (let need = to_float ops (needed_qty r);
          have = (case m_on_hand_qty r of Some q \<Rightarrow> to_float ops q | None \<Rightarrow> f_zero ops)
      in if f_gt ops need have
         then shortage_loop ops rest
                (mat_blockers @
                   [MaterialShort (m_material_name r) (f_minus ops need have)
                      (m_supplier_lead_time_days r)])
         else shortage_loop ops rest mat_blockers)"

text \<open>Lines 399-418.\<close>

definition material_check ::
  "('q, 'f) num_ops \<Rightarrow> nat \<Rightarrow> int \<Rightarrow> 'q snapshot \<Rightarrow> 'f material_blocker list" where
  "material_check ops product_id allocated data =
     (let rows = sku_bom product_id data
      in if length rows \<noteq> 0
         then shortage_loop ops
                (concat (map (merge_left ops (inventory data) allocated) rows)) []
         else [NoBOM])"

subsection \<open>The whole function\<close>

text \<open>
  \<^verbatim>\<open>simulate_request(product_id, extra_cases, due_date_str, data)\<close>.  The date parser of
  pandas is a parameter \<open>to_date\<close>: it gives \<^verbatim>\<open>pd.to_datetime(s).date()\<close>, or \<open>None\<close> where
  pandas raises.  The arithmetic of material quantities is the parameter \<open>ops\<close>.
\<close>

definition simulate_request ::
  "('q, 'f) num_ops \<Rightarrow> (string \<Rightarrow> date option) \<Rightarrow> nat \<Rightarrow> int \<Rightarrow> string \<Rightarrow> 'q snapshot
     \<Rightarrow> sim_error + 'f sim_result" where
  "simulate_request ops to_date product_id extra_cases due_date_str data =
     (case to_date due_date_str of
        None \<Rightarrow> Inl DateParseError
      | Some due_date_obj \<Rightarrow>
          (let window = sched_window due_date_obj data;
               capable = capable_lines product_id data
           in if capable = []
              then Inr \<lparr> can_fulfill = False, allocated_total = 0, remaining = extra_cases,
                         plan_rows = [], material_blockers = [NoLineCanRun],
                         capacity_blockers = [NoCapableLine], message = MsgNoLine \<rparr>
              else (let (rem, plan) =
                          alloc_dates (lines data) window capable (window_dates window)
                            (extra_cases, []);
                        allocated = extra_cases - rem;
                        mat_blockers = material_check ops product_id allocated data;
                        cap_blockers = (if rem > 0 then [ShortBefore rem due_date_obj] else [])
                    in if rem \<le> 0 \<and> length mat_blockers = 0
                       then Inr \<lparr> can_fulfill = True, allocated_total = allocated,
                                  remaining = rem, plan_rows = plan,
                                  material_blockers = mat_blockers,
                                  capacity_blockers = cap_blockers,
                                  message = MsgApproved extra_cases due_date_obj \<rparr>
                       else Inr \<lparr> can_fulfill = False, allocated_total = allocated,
                                  remaining = rem, plan_rows = plan,
                                  material_blockers = mat_blockers,
                                  capacity_blockers = cap_blockers,
                                  message = MsgBits
                                    ((if allocated > 0 then [CanCover allocated due_date_obj] else []) @
                                     (if rem > 0 then [RemainingNeed rem] else []) @
                                     (if mat_blockers \<noteq> [] then [MaterialConstraints mat_blockers]
                                      else [])) \<rparr>)))"

subsection \<open>What a plan row says about its line and day\<close>

text \<open>
  \<open>row_ok lines_df window row\<close>: the row was computed by \<open>line_day\<close> from the first row
  of \<open>lines_df\<close> for its line and from the runs of the window on its line and date, for
  some positive remaining amount.
\<close>

definition row_ok :: "line_row list \<Rightarrow> schedule_entry list \<Rightarrow> plan_row \<Rightarrow> bool" where
  "row_ok lines_df window row =
     (\<exists>l ls. filter (\<lambda>l. l_line_id l = p_line_id row) lines_df = l # ls \<and>
        (let runs = todays_runs window (p_line_id row) (p_production_date row);
             hr = headroom (daily_capacity_cases l) (total_planned runs)
         in 0 < allocated_cases row \<and>
            allocated_cases row \<le> hr + flex_cases runs \<and>
            used_headroom row = min hr (allocated_cases row) \<and>
            bumped_flexible row = max 0 (allocated_cases row - hr)))"

text \<open>
  \<open>amounts_ok lines_df window left rows\<close>: each row of \<open>rows\<close> is what \<open>line_day\<close> computes
  for the row's own line and date from the amount still to allocate when the row is
  reached, starting from \<open>left\<close>, and that amount is positive.
\<close>

fun amounts_ok :: "line_row list \<Rightarrow> schedule_entry list \<Rightarrow> int \<Rightarrow> plan_row list \<Rightarrow> bool" where
  "amounts_ok lines_df window left [] = True"
| "amounts_ok lines_df window left (row # rows) =
     (0 < left \<and>
      line_day lines_df window (p_production_date row) (p_line_id row) left = Some row \<and>
      amounts_ok lines_df window (left - allocated_cases row) rows)"

subsection \<open>The material check as the specification words it\<close>

text \<open>
  The on-hand quantities on record for a material: one for each inventory row of the
  material (a null quantity counts as 0), and the single quantity 0 for a material with
  no inventory row.
\<close>

definition on_hand_for :: "('q, 'f) num_ops \<Rightarrow> 'q inventory_row list \<Rightarrow> nat \<Rightarrow> 'f list" where
  "on_hand_for ops inv_df material =
     (let hits = filter (\<lambda>i. i_material_id i = material) inv_df
      in if hits = [] then [f_zero ops]
         else map (\<lambda>i. case on_hand_qty i of Some q \<Rightarrow> to_float ops q | None \<Rightarrow> f_zero ops)
                hits)"

text \<open>
  The required quantity of a BOM row: \<open>qty_per_case\<close> times the allocated total, as a
  float.
\<close>

definition required_qty :: "('q, 'f) num_ops \<Rightarrow> int \<Rightarrow> 'q bom_row \<Rightarrow> 'f" where
  "required_qty ops allocated b = to_float ops (col_times ops (qty_per_case b) allocated)"

text \<open>
  The shortage list of the specification: for every BOM line of the product the material
  is reported, with the shortage \<open>required - on_hand\<close>, exactly where
  \<open>required > on_hand\<close>.
\<close>

definition expected_shortages ::
  "('q, 'f) num_ops \<Rightarrow> nat \<Rightarrow> int \<Rightarrow> 'q snapshot \<Rightarrow> 'f material_blocker list" where
  "expected_shortages ops product_id allocated data =
     concat (map (\<lambda>b.
         map (\<lambda>on_hand. MaterialShort (material_name b)
                 (f_minus ops (required_qty ops allocated b) on_hand)
                 (supplier_lead_time_days b))
           (filter (\<lambda>on_hand. f_gt ops (required_qty ops allocated b) on_hand)
              (on_hand_for ops (inventory data) (b_material_id b))))
       (sku_bom product_id data))"

subsection \<open>A worked snapshot\<close>

text \<open>
  Two lines that can both run product 10; day 3 is the due date.  On day 3 line 1 is
  over-committed (11000 planned against a capacity of 10000), 6000 of it flexible.
  Day 4 has spare capacity, after the due date.  Product 30 has no capable line and no
  bill of materials; product 40 has a capable line and no bill of materials.  Material
  101 has no inventory record.
\<close>

text \<open>
  Arithmetic without rounding on rational numbers.  On the quantities of the worked
  snapshot (halves and integers far below \<open>2^53\<close>) the arithmetic of IEEE doubles gives
  the same results.
\<close>

definition exact_ops :: "(rat, rat) num_ops" where
  "exact_ops =
     \<lparr> col_times = (\<lambda>q n. q * of_int n), to_float = (\<lambda>q. q), f_zero = 0,
       f_gt = (\<lambda>x y. x > y), f_minus = (\<lambda>x y. x - y) \<rparr>"

definition example_to_date :: "string \<Rightarrow> date option" where
  "example_to_date s =
     (if s = ''2025-01-03'' then Some 3 else if s = ''2024-12-31'' then Some 0 else None)"

definition example_snapshot :: "rat snapshot" where
  "example_snapshot =
     \<lparr> schedule =
         [\<lparr> s_line_id = 1, production_date = 1, s_product_id = 10,
             planned_qty_cases = 6000, is_firm = True \<rparr>,
          \<lparr> s_line_id = 2, production_date = 1, s_product_id = 20,
             planned_qty_cases = 2000, is_firm = False \<rparr>,
          \<lparr> s_line_id = 1, production_date = 4, s_product_id = 10,
             planned_qty_cases = 1000, is_firm = True \<rparr>,
          \<lparr> s_line_id = 1, production_date = 3, s_product_id = 20,
             planned_qty_cases = 6000, is_firm = False \<rparr>,
          \<lparr> s_line_id = 1, production_date = 3, s_product_id = 10,
             planned_qty_cases = 5000, is_firm = True \<rparr>],
       lines =
         [\<lparr> l_line_id = 1, line_name = ''Line A'', daily_capacity_cases = 10000 \<rparr>,
          \<lparr> l_line_id = 2, line_name = ''Line B'', daily_capacity_cases = 5000 \<rparr>],
       capability =
         [\<lparr> c_line_id = 1, c_product_id = 10, rate_cases_per_hour = 1200 \<rparr>,
          \<lparr> c_line_id = 2, c_product_id = 10, rate_cases_per_hour = 600 \<rparr>,
          \<lparr> c_line_id = 1, c_product_id = 20, rate_cases_per_hour = 1000 \<rparr>,
          \<lparr> c_line_id = 2, c_product_id = 40, rate_cases_per_hour = 500 \<rparr>],
       bom =
         [\<lparr> b_product_id = 10, b_material_id = 100, qty_per_case = 1 / 2,
             material_name = ''Sugar'', supplier_lead_time_days = Some 14 \<rparr>,
          \<lparr> b_product_id = 20, b_material_id = 100, qty_per_case = 1,
             material_name = ''Sugar'', supplier_lead_time_days = Some 14 \<rparr>,
          \<lparr> b_product_id = 10, b_material_id = 101, qty_per_case = 2,
             material_name = ''Bottle'', supplier_lead_time_days = None \<rparr>,
          \<lparr> b_product_id = 10, b_material_id = 102, qty_per_case = 1,
             material_name = ''Cap'', supplier_lead_time_days = Some 7 \<rparr>],
       inventory =
         [\<lparr> i_material_id = 100, on_hand_qty = Some 500 \<rparr>,
          \<lparr> i_material_id = 102, on_hand_qty = Some 30000 \<rparr>] \<rparr>"

section \<open>Properties of the loops\<close>

lemma set_unique: "set (unique xs) = set xs"
  by (simp add: unique_def)

lemma unique_Nil: "(unique xs = []) = (xs = [])"
  by (simp add: unique_def)

lemma distinct_unique: "distinct (unique xs)"
  by (simp add: unique_def)

lemma line_day_Some:
  assumes "line_day lines_df window d lid rem = Some row" and "0 < rem"
  shows "p_line_id row = lid \<and> p_production_date row = d \<and>
         allocated_cases row \<le> rem \<and> row_ok lines_df window row"
  using assms
  by (auto simp: line_day_def row_ok_def Let_def split: list.splits if_splits)

lemma alloc_lines_steps:
  "alloc_lines lines_df window d cl (rem, plan) = (rem', plan') \<Longrightarrow>
   \<exists>new. plan' = plan @ new \<and> sum_list (map allocated_cases new) + rem' = rem \<and>
         (0 \<le> rem \<longrightarrow> 0 \<le> rem') \<and>
         (\<forall>row \<in> set new. p_production_date row = d \<and> p_line_id row \<in> set cl \<and>
                            row_ok lines_df window row)"
proof (induction cl arbitrary: rem plan)
  case Nil
  then show ?case by simp
next
  case (Cons lid rest)
  show ?case
  proof (cases "rem \<le> 0")
    case True
    with Cons.prems show ?thesis by simp
  next
    case pos: False
    show ?thesis
    proof (cases "line_day lines_df window d lid rem")
      case None
      with pos Cons.prems
      have "alloc_lines lines_df window d rest (rem, plan) = (rem', plan')" by simp
      from Cons.IH [OF this] show ?thesis by auto
    next
      case (Some row)
      with pos Cons.prems
      have "alloc_lines lines_df window d rest (rem - allocated_cases row, plan @ [row])
              = (rem', plan')" by simp
      from Cons.IH [OF this] obtain new where
        new: "plan' = (plan @ [row]) @ new"
             "sum_list (map allocated_cases new) + rem' = rem - allocated_cases row"
             "0 \<le> rem - allocated_cases row \<longrightarrow> 0 \<le> rem'"
             "\<forall>r \<in> set new. p_production_date r = d \<and> p_line_id r \<in> set rest \<and>
                               row_ok lines_df window r"
        by blast
      from Some pos have row: "p_line_id row = lid" "p_production_date row = d"
        "allocated_cases row \<le> rem" "row_ok lines_df window row"
        using line_day_Some [of lines_df window d lid rem row] by simp_all
      show ?thesis
      proof (intro exI conjI)
        show "plan' = plan @ (row # new)" using new(1) by simp
        show "sum_list (map allocated_cases (row # new)) + rem' = rem" using new(2) by simp
        show "0 \<le> rem \<longrightarrow> 0 \<le> rem'" using new(3) row(3) by simp
        show "\<forall>r \<in> set (row # new). p_production_date r = d \<and> p_line_id r \<in> set (lid # rest) \<and>
                               row_ok lines_df window r"
          using new(4) row by auto
      qed
    qed
  qed
qed

lemma alloc_dates_steps:
  "alloc_dates lines_df window cl ds (rem, plan) = (rem', plan') \<Longrightarrow>
   \<exists>new. plan' = plan @ new \<and> sum_list (map allocated_cases new) + rem' = rem \<and>
         (0 \<le> rem \<longrightarrow> 0 \<le> rem') \<and>
         (\<forall>row \<in> set new. p_production_date row \<in> set ds \<and> p_line_id row \<in> set cl \<and>
                            row_ok lines_df window row)"
proof (induction ds arbitrary: rem plan)
  case Nil
  then show ?case by simp
next
  case (Cons d rest)
  show ?case
  proof (cases "rem \<le> 0")
    case True
    with Cons.prems show ?thesis by simp
  next
    case pos: False
    obtain rem1 plan1 where
      step: "alloc_lines lines_df window d cl (rem, plan) = (rem1, plan1)"
      by (cases "alloc_lines lines_df window d cl (rem, plan)")
    with pos Cons.prems
    have rest: "alloc_dates lines_df window cl rest (rem1, plan1) = (rem', plan')" by simp
    from alloc_lines_steps [OF step] obtain new1 where
      n1: "plan1 = plan @ new1" "sum_list (map allocated_cases new1) + rem1 = rem"
          "0 \<le> rem \<longrightarrow> 0 \<le> rem1"
          "\<forall>row \<in> set new1. p_production_date row = d \<and> p_line_id row \<in> set cl \<and>
                            row_ok lines_df window row"
      by blast
    from Cons.IH [OF rest] obtain new2 where
      n2: "plan' = plan1 @ new2" "sum_list (map allocated_cases new2) + rem' = rem1"
          "0 \<le> rem1 \<longrightarrow> 0 \<le> rem'"
          "\<forall>row \<in> set new2. p_production_date row \<in> set rest \<and> p_line_id row \<in> set cl \<and>
                            row_ok lines_df window row"
      by blast
    show ?thesis
    proof (intro exI conjI)
      show "plan' = plan @ (new1 @ new2)" using n1(1) n2(1) by simp
      show "sum_list (map allocated_cases (new1 @ new2)) + rem' = rem"
        using n1(2) n2(2) by simp
      show "0 \<le> rem \<longrightarrow> 0 \<le> rem'" using n1(3) n2(3) by simp
      show "\<forall>row \<in> set (new1 @ new2). p_production_date row \<in> set (d # rest) \<and>
              p_line_id row \<in> set cl \<and> row_ok lines_df window row"
        using n1(4) n2(4) by auto
    qed
  qed
qed

lemma alloc_dates_nonpos:
  "rem \<le> 0 \<Longrightarrow> alloc_dates lines_df window cl ds (rem, plan) = (rem, plan)"
  by (cases ds) simp_all

section \<open>The two paths of the function\<close>

lemma capable_lines_Nil:
  "(capable_lines pid data = []) = (\<forall>c \<in> set (capability data). c_product_id c \<noteq> pid)"
  by (auto simp: capable_lines_def unique_Nil filter_empty_conv)

lemma simulate_request_incapable:
  assumes "to_date s = Some due" and "capable_lines pid data = []"
  shows "simulate_request ops to_date pid extra s data =
         Inr \<lparr> can_fulfill = False, allocated_total = 0, remaining = extra,
               plan_rows = [], material_blockers = [NoLineCanRun],
               capacity_blockers = [NoCapableLine], message = MsgNoLine \<rparr>"
  using assms by (simp add: simulate_request_def)

lemma simulate_request_capable:
  assumes "to_date s = Some due" and "capable_lines pid data \<noteq> []"
    and "alloc_dates (lines data) (sched_window due data) (capable_lines pid data)
           (window_dates (sched_window due data)) (extra, []) = (rem, plan)"
  shows "\<exists>r. simulate_request ops to_date pid extra s data = Inr r \<and>
             remaining r = rem \<and> plan_rows r = plan \<and> allocated_total r = extra - rem \<and>
             material_blockers r = material_check ops pid (extra - rem) data \<and>
             can_fulfill r = (rem \<le> 0 \<and> material_check ops pid (extra - rem) data = []) \<and>
             capacity_blockers r = (if rem > 0 then [ShortBefore rem due] else [])"
  using assms by (simp add: simulate_request_def Let_def)

lemma window_dates_Nil: "window_dates [] = []"
  by (simp add: window_dates_def unique_def)

lemma sched_window_Nil:
  "(sched_window due data = []) = (\<forall>e \<in> set (schedule data). due < production_date e)"
  by (auto simp: sched_window_def filter_empty_conv not_le)

lemma todays_runs_window:
  "d \<le> due \<Longrightarrow> todays_runs (sched_window due data) lid d = todays_runs (schedule data) lid d"
  by (auto simp: todays_runs_def sched_window_def intro: filter_cong)

lemma set_window_dates:
  "set (window_dates (sched_window due data)) =
   {d. d \<le> due \<and> (\<exists>e \<in> set (schedule data). production_date e = d)}"
  by (auto simp: window_dates_def set_unique sched_window_def)

lemma total_planned_eq: "total_planned runs = sum_list (map planned_qty_cases runs)"
  by (simp add: total_planned_def)

lemma flex_cases_eq:
  "flex_cases runs = sum_list (map planned_qty_cases (filter (\<lambda>e. \<not> is_firm e) runs))"
  by (simp add: flex_cases_def)

lemma flex_cases_todays_runs:
  "flex_cases (todays_runs window lid d) =
   sum_list (map planned_qty_cases
     (filter (\<lambda>e. s_line_id e = lid \<and> production_date e = d \<and> \<not> is_firm e) window))"
  by (simp add: flex_cases_eq todays_runs_def conj_commute conj_left_commute)

lemma flex_cases_nonneg:
  "\<forall>e \<in> set runs. 0 \<le> planned_qty_cases e \<Longrightarrow> 0 \<le> flex_cases runs"
  unfolding flex_cases_eq by (rule sum_list_nonneg) auto

lemma plan_rows_ok:
  assumes "to_date s = Some due"
  shows "\<exists>r. simulate_request ops to_date pid extra s data = Inr r \<and>
          (\<forall>row \<in> set (plan_rows r).
              p_production_date row \<le> due \<and>
              (\<exists>e \<in> set (schedule data). production_date e = p_production_date row) \<and>
              p_line_id row \<in> set (capable_lines pid data) \<and>
              row_ok (lines data) (schedule data) row)"
proof (cases "capable_lines pid data = []")
  case True
  from simulate_request_incapable [where ops = ops and to_date = to_date and s = s, OF assms True]
  show ?thesis by simp
next
  case False
  obtain rem plan where
    run: "alloc_dates (lines data) (sched_window due data) (capable_lines pid data)
            (window_dates (sched_window due data)) (extra, []) = (rem, plan)"
    by (cases "alloc_dates (lines data) (sched_window due data) (capable_lines pid data)
            (window_dates (sched_window due data)) (extra, [])")
  from alloc_dates_steps [OF run]
  have rows: "\<forall>row \<in> set plan.
      p_production_date row \<in> set (window_dates (sched_window due data)) \<and>
      p_line_id row \<in> set (capable_lines pid data) \<and>
      row_ok (lines data) (sched_window due data) row" by auto
  have "\<forall>row \<in> set plan.
      p_production_date row \<le> due \<and>
      (\<exists>e \<in> set (schedule data). production_date e = p_production_date row) \<and>
      p_line_id row \<in> set (capable_lines pid data) \<and>
      row_ok (lines data) (schedule data) row"
  proof
    fix row assume "row \<in> set plan"
    with rows have d: "p_production_date row \<in> set (window_dates (sched_window due data))"
      and l: "p_line_id row \<in> set (capable_lines pid data)"
      and ok: "row_ok (lines data) (sched_window due data) row" by auto
    from d have le: "p_production_date row \<le> due"
      and ex: "\<exists>e \<in> set (schedule data). production_date e = p_production_date row"
      by (auto simp: set_window_dates)
    from ok le have "row_ok (lines data) (schedule data) row"
      by (simp add: row_ok_def todays_runs_window)
    with le ex l show "p_production_date row \<le> due \<and>
      (\<exists>e \<in> set (schedule data). production_date e = p_production_date row) \<and>
      p_line_id row \<in> set (capable_lines pid data) \<and>
      row_ok (lines data) (schedule data) row" by simp
  qed
  with simulate_request_capable [where ops = ops and to_date = to_date and s = s, OF assms False run]
  show ?thesis by auto
qed

lemma headroom_nonneg: "0 \<le> headroom c p"
  by (simp add: headroom_def)

lemma row_ok_split:
  assumes "row_ok lines_df window row"
  shows "allocated_cases row = used_headroom row + bumped_flexible row \<and>
         0 \<le> used_headroom row \<and> 0 \<le> bumped_flexible row \<and>
         bumped_flexible row \<le>
           max 0 (flex_cases (todays_runs window (p_line_id row) (p_production_date row)))"
  using assms by (auto simp: row_ok_def Let_def headroom_def)

text \<open>The worked snapshot, asked for 25000 cases of product 10 by day 3.\<close>

lemma example_run:
  "simulate_request exact_ops example_to_date 10 25000 ''2025-01-03'' example_snapshot =
     Inr \<lparr> can_fulfill = False, allocated_total = 20000, remaining = 5000,
        plan_rows =
          [\<lparr>p_line_id = 1, p_production_date = 1, allocated_cases = 4000,
              used_headroom = 4000, bumped_flexible = 0\<rparr>,
           \<lparr>p_line_id = 2, p_production_date = 1, allocated_cases = 5000,
              used_headroom = 3000, bumped_flexible = 2000\<rparr>,
           \<lparr>p_line_id = 1, p_production_date = 3, allocated_cases = 6000,
              used_headroom = 0, bumped_flexible = 6000\<rparr>,
           \<lparr>p_line_id = 2, p_production_date = 3, allocated_cases = 5000,
              used_headroom = 5000, bumped_flexible = 0\<rparr>],
        material_blockers =
          [MaterialShort ''Sugar'' 9500 (Some 14),
           MaterialShort ''Bottle'' 40000 None],
        capacity_blockers = [ShortBefore 5000 3],
        message =
          MsgBits
           [CanCover 20000 3, RemainingNeed 5000,
            MaterialConstraints
             [MaterialShort ''Sugar'' 9500 (Some 14),
              MaterialShort ''Bottle'' 40000 None]]\<rparr>"
  by code_simp

lemma example_date: "example_to_date ''2025-01-03'' = Some 3"
  by (simp add: example_to_date_def)

lemma material_check_no_bom:
  "\<forall>b \<in> set (bom data). b_product_id b \<noteq> pid \<Longrightarrow> material_check ops pid n data = [NoBOM]"
  by (simp add: material_check_def sku_bom_def filter_empty_conv)

lemma shortage_loop_append:
  "shortage_loop ops rows acc =
   acc @ concat (map (\<lambda>r.
       if f_gt ops (to_float ops (needed_qty r))
            (case m_on_hand_qty r of Some q \<Rightarrow> to_float ops q | None \<Rightarrow> f_zero ops)
       then [MaterialShort (m_material_name r)
               (f_minus ops (to_float ops (needed_qty r))
                  (case m_on_hand_qty r of Some q \<Rightarrow> to_float ops q | None \<Rightarrow> f_zero ops))
               (m_supplier_lead_time_days r)]
       else []) rows)"
  by (induction rows arbitrary: acc) (simp_all add: Let_def)

lemma concat_map_if_singleton:
  "concat (map (\<lambda>x. if P x then [f x] else []) xs) = map f (filter P xs)"
  by (induction xs) simp_all

lemma merge_left_shortages:
  "concat (map (\<lambda>r.
       if f_gt ops (to_float ops (needed_qty r))
            (case m_on_hand_qty r of Some q \<Rightarrow> to_float ops q | None \<Rightarrow> f_zero ops)
       then [MaterialShort (m_material_name r)
               (f_minus ops (to_float ops (needed_qty r))
                  (case m_on_hand_qty r of Some q \<Rightarrow> to_float ops q | None \<Rightarrow> f_zero ops))
               (m_supplier_lead_time_days r)]
       else []) (merge_left ops inv_df allocated b)) =
   map (\<lambda>on_hand. MaterialShort (material_name b)
                 (f_minus ops (required_qty ops allocated b) on_hand)
                 (supplier_lead_time_days b))
           (filter (\<lambda>on_hand. f_gt ops (required_qty ops allocated b) on_hand)
              (on_hand_for ops inv_df (b_material_id b)))"
  by (simp add: merge_left_def on_hand_for_def required_qty_def Let_def
        concat_map_if_singleton filter_map comp_def)

lemma concat_map_concat:
  "concat (map f (concat (map g xs))) = concat (map (\<lambda>x. concat (map f (g x))) xs)"
  by (induction xs) simp_all

lemma material_check_expected:
  assumes "\<exists>b \<in> set (bom data). b_product_id b = pid"
  shows "material_check ops pid allocated data = expected_shortages ops pid allocated data"
proof -
  from assms have "sku_bom pid data \<noteq> []"
    by (auto simp: sku_bom_def filter_empty_conv)
  then show ?thesis
    by (simp add: material_check_def expected_shortages_def shortage_loop_append
          concat_map_concat merge_left_shortages)
qed

lemma set_expected_shortages:
  "(x \<in> set (expected_shortages ops pid allocated data)) =
   (\<exists>b \<in> set (bom data). b_product_id b = pid \<and>
      (\<exists>on_hand \<in> set (on_hand_for ops (inventory data) (b_material_id b)).
          f_gt ops (required_qty ops allocated b) on_hand \<and>
          x = MaterialShort (material_name b)
                (f_minus ops (required_qty ops allocated b) on_hand)
                (supplier_lead_time_days b)))"
  by (auto simp: expected_shortages_def sku_bom_def)

lemma on_hand_for_no_record:
  "\<forall>i \<in> set inv_df. i_material_id i \<noteq> m \<Longrightarrow> on_hand_for ops inv_df m = [f_zero ops]"
  by (simp add: on_hand_for_def filter_empty_conv)

lemma line_day_None_any:
  "line_day lines_df window d lid n = None \<Longrightarrow> line_day lines_df window d lid m = None"
  by (auto simp: line_day_def Let_def split: list.splits if_splits)

lemma line_day_None_iff:
  "(line_day lines_df window d lid n = None) =
   (\<forall>l ls. filter (\<lambda>l. l_line_id l = lid) lines_df = l # ls \<longrightarrow>
      headroom (daily_capacity_cases l) (total_planned (todays_runs window lid d))
        + flex_cases (todays_runs window lid d) \<le> 0)"
  by (auto simp: line_day_def Let_def split: list.splits if_splits)

lemma row_ok_pos: "row_ok lines_df window row \<Longrightarrow> 0 < allocated_cases row"
  by (auto simp: row_ok_def Let_def)

lemma alloc_lines_le:
  assumes "alloc_lines lines_df window d cl (rem, plan) = (rem', plan')"
  shows "rem' \<le> rem \<and> set plan \<subseteq> set plan'"
proof -
  from alloc_lines_steps [OF assms] obtain new where
    n: "plan' = plan @ new" "sum_list (map allocated_cases new) + rem' = rem"
       "\<forall>row \<in> set new. row_ok lines_df window row" by blast
  have "0 \<le> sum_list (map allocated_cases new)"
    by (rule sum_list_nonneg) (use n(3) row_ok_pos in fastforce)
  with n show ?thesis by auto
qed

lemma alloc_dates_le:
  assumes "alloc_dates lines_df window cl ds (rem, plan) = (rem', plan')"
  shows "rem' \<le> rem \<and> set plan \<subseteq> set plan'"
proof -
  from alloc_dates_steps [OF assms] obtain new where
    n: "plan' = plan @ new" "sum_list (map allocated_cases new) + rem' = rem"
       "\<forall>row \<in> set new. row_ok lines_df window row" by blast
  have "0 \<le> sum_list (map allocated_cases new)"
    by (rule sum_list_nonneg) (use n(3) row_ok_pos in fastforce)
  with n show ?thesis by auto
qed

lemma alloc_lines_exhaust:
  assumes "alloc_lines lines_df window d cl (rem, plan) = (rem', plan')"
    and "0 < rem'" and "lid \<in> set cl" and "line_day lines_df window d lid n \<noteq> None"
  shows "\<exists>row \<in> set plan'. p_line_id row = lid \<and> p_production_date row = d"
  using assms
proof (induction cl arbitrary: rem plan)
  case Nil
  then show ?case by simp
next
  case (Cons x rest)
  from alloc_lines_le [OF Cons.prems(1)] Cons.prems(2) have pos: "0 < rem" by simp
  show ?case
  proof (cases "line_day lines_df window d x rem")
    case None
    with pos Cons.prems(1)
    have run: "alloc_lines lines_df window d rest (rem, plan) = (rem', plan')" by simp
    from None Cons.prems(4) have "x \<noteq> lid"
      using line_day_None_any [of lines_df window d x rem n] by auto
    with Cons.prems(3) have "lid \<in> set rest" by simp
    from Cons.IH [OF run Cons.prems(2) this Cons.prems(4)] show ?thesis .
  next
    case (Some row)
    with pos Cons.prems(1)
    have run: "alloc_lines lines_df window d rest (rem - allocated_cases row, plan @ [row])
                 = (rem', plan')" by simp
    show ?thesis
    proof (cases "x = lid")
      case True
      from Some pos have "p_line_id row = x" "p_production_date row = d"
        using line_day_Some [of lines_df window d x rem row] by simp_all
      moreover from alloc_lines_le [OF run] have "row \<in> set plan'" by auto
      ultimately show ?thesis using True by blast
    next
      case False
      with Cons.prems(3) have "lid \<in> set rest" by simp
      from Cons.IH [OF run Cons.prems(2) this Cons.prems(4)] show ?thesis .
    qed
  qed
qed

lemma alloc_dates_exhaust:
  assumes "alloc_dates lines_df window cl ds (rem, plan) = (rem', plan')"
    and "0 < rem'" and "d \<in> set ds" and "lid \<in> set cl"
    and "line_day lines_df window d lid n \<noteq> None"
  shows "\<exists>row \<in> set plan'. p_line_id row = lid \<and> p_production_date row = d"
  using assms
proof (induction ds arbitrary: rem plan)
  case Nil
  then show ?case by simp
next
  case (Cons x rest)
  from alloc_dates_le [OF Cons.prems(1)] Cons.prems(2) have pos: "0 < rem" by simp
  obtain rem1 plan1 where
    step: "alloc_lines lines_df window x cl (rem, plan) = (rem1, plan1)"
    by (cases "alloc_lines lines_df window x cl (rem, plan)")
  with pos Cons.prems(1)
  have run: "alloc_dates lines_df window cl rest (rem1, plan1) = (rem', plan')" by simp
  show ?case
  proof (cases "x = d")
    case True
    from alloc_dates_le [OF run] Cons.prems(2) have "0 < rem1" and sub: "set plan1 \<subseteq> set plan'"
      by auto
    from alloc_lines_exhaust [OF step \<open>0 < rem1\<close> Cons.prems(4)] Cons.prems(5) True
    have "\<exists>row \<in> set plan1. p_line_id row = lid \<and> p_production_date row = d" by blast
    with sub show ?thesis by blast
  next
    case False
    with Cons.prems(3) have "d \<in> set rest" by simp
    from Cons.IH [OF run Cons.prems(2) this Cons.prems(4) Cons.prems(5)] show ?thesis .
  qed
qed

lemma set_sched_window:
  "set (sched_window due data) = {e \<in> set (schedule data). production_date e \<le> due}"
  by (simp add: sched_window_def)

lemma amounts_ok_append:
  "amounts_ok lines_df window left (xs @ ys) =
   (amounts_ok lines_df window left xs \<and>
    amounts_ok lines_df window (left - sum_list (map allocated_cases xs)) ys)"
  by (induction xs arbitrary: left) (auto simp: algebra_simps)

lemma alloc_lines_amounts:
  "alloc_lines lines_df window d cl (rem, plan) = (rem', plan') \<Longrightarrow>
   \<exists>new. plan' = plan @ new \<and> amounts_ok lines_df window rem new \<and>
         rem' = rem - sum_list (map allocated_cases new)"
proof (induction cl arbitrary: rem plan)
  case Nil
  then show ?case by simp
next
  case (Cons lid rest)
  show ?case
  proof (cases "rem \<le> 0")
    case True
    with Cons.prems show ?thesis by simp
  next
    case pos: False
    show ?thesis
    proof (cases "line_day lines_df window d lid rem")
      case None
      with pos Cons.prems
      have "alloc_lines lines_df window d rest (rem, plan) = (rem', plan')" by simp
      from Cons.IH [OF this] show ?thesis .
    next
      case (Some row)
      with pos Cons.prems
      have "alloc_lines lines_df window d rest (rem - allocated_cases row, plan @ [row])
              = (rem', plan')" by simp
      from Cons.IH [OF this] obtain new where
        new: "plan' = (plan @ [row]) @ new"
             "amounts_ok lines_df window (rem - allocated_cases row) new"
             "rem' = rem - allocated_cases row - sum_list (map allocated_cases new)"
        by blast
      from Some pos have "p_line_id row = lid" "p_production_date row = d"
        using line_day_Some [of lines_df window d lid rem row] by simp_all
      with Some pos have "amounts_ok lines_df window rem (row # new)"
        using new(2) by simp
      with new(1,3) show ?thesis
        by (intro exI [of _ "row # new"]) simp
    qed
  qed
qed

lemma alloc_dates_amounts:
  "alloc_dates lines_df window cl ds (rem, plan) = (rem', plan') \<Longrightarrow>
   \<exists>new. plan' = plan @ new \<and> amounts_ok lines_df window rem new \<and>
         rem' = rem - sum_list (map allocated_cases new)"
proof (induction ds arbitrary: rem plan)
  case Nil
  then show ?case by simp
next
  case (Cons d rest)
  show ?case
  proof (cases "rem \<le> 0")
    case True
    with Cons.prems show ?thesis by simp
  next
    case pos: False
    obtain rem1 plan1 where
      step: "alloc_lines lines_df window d cl (rem, plan) = (rem1, plan1)"
      by (cases "alloc_lines lines_df window d cl (rem, plan)")
    with pos Cons.prems
    have rest: "alloc_dates lines_df window cl rest (rem1, plan1) = (rem', plan')" by simp
    from alloc_lines_amounts [OF step] obtain new1 where
      n1: "plan1 = plan @ new1" "amounts_ok lines_df window rem new1"
          "rem1 = rem - sum_list (map allocated_cases new1)" by blast
    from Cons.IH [OF rest] obtain new2 where
      n2: "plan' = plan1 @ new2" "amounts_ok lines_df window rem1 new2"
          "rem' = rem1 - sum_list (map allocated_cases new2)" by blast
    from n1 n2 have "amounts_ok lines_df window rem (new1 @ new2)"
      by (simp add: amounts_ok_append)
    with n1 n2 show ?thesis
      by (intro exI [of _ "new1 @ new2"]) simp
  qed
qed

lemma line_day_Some_exact:
  assumes "line_day lines_df window d lid left = Some row"
  shows "\<exists>l ls. filter (\<lambda>l. l_line_id l = lid) lines_df = l # ls \<and>
           p_line_id row = lid \<and> p_production_date row = d \<and>
           0 < max 0 (daily_capacity_cases l
                        - sum_list (map planned_qty_cases (todays_runs window lid d)))
               + sum_list (map planned_qty_cases
                   (filter (\<lambda>e. \<not> is_firm e) (todays_runs window lid d))) \<and>
           allocated_cases row =
             min (max 0 (daily_capacity_cases l
                           - sum_list (map planned_qty_cases (todays_runs window lid d)))
                  + sum_list (map planned_qty_cases
                      (filter (\<lambda>e. \<not> is_firm e) (todays_runs window lid d)))) left \<and>
           used_headroom row =
             min (max 0 (daily_capacity_cases l
                           - sum_list (map planned_qty_cases (todays_runs window lid d))))
                 (allocated_cases row) \<and>
           bumped_flexible row = allocated_cases row - used_headroom row"
proof -
  define runs where "runs = todays_runs window lid d"
  from assms obtain l ls where l: "filter (\<lambda>l. l_line_id l = lid) lines_df = l # ls"
    by (auto simp: line_day_def split: list.splits)
  define hr where "hr = headroom (daily_capacity_cases l) (total_planned runs)"
  define fx where "fx = flex_cases runs"
  from assms l have pos: "0 < hr + fx"
    and row: "row = \<lparr> p_line_id = lid, p_production_date = d,
                       allocated_cases = min (hr + fx) left,
                       used_headroom = min hr (min (hr + fx) left),
                       bumped_flexible = max 0 (min (hr + fx) left - hr) \<rparr>"
    by (auto simp: line_day_def Let_def runs_def hr_def fx_def split: if_splits)
  have hr: "hr = max 0 (daily_capacity_cases l - sum_list (map planned_qty_cases runs))"
    by (simp add: hr_def headroom_def total_planned_eq max.commute)
  have fx: "fx = sum_list (map planned_qty_cases (filter (\<lambda>e. \<not> is_firm e) runs))"
    by (simp add: fx_def flex_cases_eq)
  have b: "max 0 (min (hr + fx) left - hr) = min (hr + fx) left - min hr (min (hr + fx) left)"
    by arith
  from row have f: "p_line_id row = lid" "p_production_date row = d"
    "allocated_cases row = min (hr + fx) left"
    "used_headroom row = min hr (allocated_cases row)"
    "bumped_flexible row = allocated_cases row - used_headroom row"
    using b by simp_all
  from l f pos show ?thesis
    unfolding hr fx runs_def by blast
qed

lemma filter_flexible_todays_runs:
  "filter (\<lambda>e. \<not> is_firm e) (todays_runs window lid d) =
   filter (\<lambda>e. s_line_id e = lid \<and> production_date e = d \<and> \<not> is_firm e) window"
  by (auto simp: todays_runs_def intro: filter_cong)

section \<open>Properties of the result\<close>

text \<open>
  C1 (conservation).  Whenever the due date parses, \<open>simulate_request\<close> returns a result,
  and in it the allocated cases of the plan rows add up, together with \<open>remaining\<close>, to
  the requested extra cases; likewise \<open>allocated_total + remaining\<close> is the request.
  This holds for every snapshot and every requested amount.
\<close>

theorem simulate_request_conservation:
  assumes "to_date s = Some due"
  shows "\<exists>r. simulate_request ops to_date pid extra s data = Inr r \<and>
             sum_list (map allocated_cases (plan_rows r)) + remaining r = extra \<and>
             allocated_total r + remaining r = extra"
proof (cases "capable_lines pid data = []")
  case True
  from simulate_request_incapable [where ops = ops and to_date = to_date and s = s, OF assms True]
  show ?thesis by simp
next
  case False
  obtain rem plan where
    run: "alloc_dates (lines data) (sched_window due data) (capable_lines pid data)
            (window_dates (sched_window due data)) (extra, []) = (rem, plan)"
    by (cases "alloc_dates (lines data) (sched_window due data) (capable_lines pid data)
            (window_dates (sched_window due data)) (extra, [])")
  from alloc_dates_steps [OF run]
  have "sum_list (map allocated_cases plan) + rem = extra" by auto
  with simulate_request_capable [where ops = ops and to_date = to_date and s = s, OF assms False run]
  show ?thesis by auto
qed

theorem simulate_request_conservation_witness:
  "example_to_date ''2025-01-03'' = Some 3 \<and>
   (\<exists>r. simulate_request exact_ops example_to_date 10 25000 ''2025-01-03'' example_snapshot = Inr r \<and>
        sum_list (map allocated_cases (plan_rows r)) + remaining r = 25000 \<and>
        allocated_total r + remaining r = 25000)"
proof -
  have h: "example_to_date ''2025-01-03'' = Some 3"
    by (simp add: example_to_date_def)
  from simulate_request_conservation [where ops = exact_ops and to_date = example_to_date and s = "''2025-01-03''", OF h]
  show ?thesis using h by blast
qed

text \<open>
  C2 (requests of zero or fewer cases).  Such a request is not rejected with a
  validation error: the function has no check of \<open>extra_cases\<close>.  At the
  worked snapshot a request for 0 cases of product 10 is answered with an ordinary
  result, flagged as fulfillable.
\<close>

theorem nonpositive_request_accepted:
  "simulate_request exact_ops example_to_date 10 0 ''2025-01-03'' example_snapshot =
     Inr \<lparr> can_fulfill = True, allocated_total = 0, remaining = 0,
           plan_rows = [], material_blockers = [], capacity_blockers = [],
           message = MsgApproved 0 3 \<rparr>"
  by code_simp

text \<open>
  C2, as the code behaves.  For \<open>extra_cases \<le> 0\<close> the function returns an ordinary
  result, never an error: the plan is empty, \<open>allocated_total\<close> is 0 and \<open>remaining\<close> is
  the requested amount.  When a line can run the product there is no capacity blocker,
  the material check is run for 0 cases, and the request is flagged fulfillable exactly
  when that check reports nothing.
\<close>

theorem nonpositive_request_result:
  assumes "to_date s = Some due" and "extra \<le> 0"
  shows "\<exists>r. simulate_request ops to_date pid extra s data = Inr r \<and>
             plan_rows r = [] \<and> allocated_total r = 0 \<and> remaining r = extra \<and>
             ((\<exists>c \<in> set (capability data). c_product_id c = pid) \<longrightarrow>
                capacity_blockers r = [] \<and>
                material_blockers r = material_check ops pid 0 data \<and>
                can_fulfill r = (material_blockers r = []))"
proof (cases "capable_lines pid data = []")
  case True
  from simulate_request_incapable [where ops = ops and to_date = to_date and s = s, OF assms(1) True]
  show ?thesis using True by (simp add: capable_lines_Nil)
next
  case False
  have run: "alloc_dates (lines data) (sched_window due data) (capable_lines pid data)
           (window_dates (sched_window due data)) (extra, []) = (extra, [])"
    using assms(2) by (rule alloc_dates_nonpos)
  from simulate_request_capable [where ops = ops and to_date = to_date and s = s, OF assms(1) False run]
  show ?thesis using assms(2) by auto
qed

theorem nonpositive_request_result_witness:
  "example_to_date ''2025-01-03'' = Some 3 \<and> (- 5 :: int) \<le> 0 \<and>
   (\<exists>c \<in> set (capability example_snapshot). c_product_id c = 10) \<and>
   (\<exists>r. simulate_request exact_ops example_to_date 10 (- 5) ''2025-01-03'' example_snapshot = Inr r \<and>
        plan_rows r = [] \<and> allocated_total r = 0 \<and> remaining r = - 5 \<and>
        capacity_blockers r = [] \<and>
        material_blockers r = material_check exact_ops 10 0 example_snapshot \<and>
        can_fulfill r = (material_blockers r = []))"
proof -
  have h: "example_to_date ''2025-01-03'' = Some 3"
    by (simp add: example_to_date_def)
  have n: "(- 5 :: int) \<le> 0" by simp
  have c: "\<exists>c \<in> set (capability example_snapshot). c_product_id c = 10"
    by (simp add: example_snapshot_def)
  from nonpositive_request_result
         [where ops = exact_ops and to_date = example_to_date and s = "''2025-01-03''" and pid = 10
            and data = example_snapshot, OF h n]
  show ?thesis using h n c by blast
qed

text \<open>
  C3 (firm inviolability).  Every row of the returned plan splits its allocated cases
  into headroom used and flexible cases bumped, both non-negative.  On a snapshot whose
  planned quantities are non-negative (the invariant of a schedule entry), the bumped
  cases are at most the non-firm planned quantity of the schedule on the row's line and
  date, so no firm quantity is touched.
\<close>

theorem firm_inviolability:
  assumes "to_date s = Some due"
  shows "\<exists>r. simulate_request ops to_date pid extra s data = Inr r \<and>
          (\<forall>row \<in> set (plan_rows r).
             allocated_cases row = used_headroom row + bumped_flexible row \<and>
             0 \<le> used_headroom row \<and> 0 \<le> bumped_flexible row \<and>
             ((\<forall>e \<in> set (schedule data). 0 \<le> planned_qty_cases e) \<longrightarrow>
              bumped_flexible row \<le>
                sum_list (map planned_qty_cases
                  (filter (\<lambda>e. s_line_id e = p_line_id row \<and>
                               production_date e = p_production_date row \<and>
                               \<not> is_firm e) (schedule data)))))"
proof -
  from plan_rows_ok [where ops = ops and to_date = to_date and s = s, OF assms]
  obtain r where r: "simulate_request ops to_date pid extra s data = Inr r"
    and rows: "\<forall>row \<in> set (plan_rows r). row_ok (lines data) (schedule data) row"
    by blast
  have "\<forall>row \<in> set (plan_rows r).
             allocated_cases row = used_headroom row + bumped_flexible row \<and>
             0 \<le> used_headroom row \<and> 0 \<le> bumped_flexible row \<and>
             ((\<forall>e \<in> set (schedule data). 0 \<le> planned_qty_cases e) \<longrightarrow>
              bumped_flexible row \<le>
                sum_list (map planned_qty_cases
                  (filter (\<lambda>e. s_line_id e = p_line_id row \<and>
                               production_date e = p_production_date row \<and>
                               \<not> is_firm e) (schedule data))))"
  proof
    fix row assume "row \<in> set (plan_rows r)"
    with rows have ok: "row_ok (lines data) (schedule data) row" by simp
    let ?runs = "todays_runs (schedule data) (p_line_id row) (p_production_date row)"
    note split = row_ok_split [OF ok]
    have "bumped_flexible row \<le> flex_cases ?runs"
      if nn: "\<forall>e \<in> set (schedule data). 0 \<le> planned_qty_cases e"
    proof -
      from nn have "\<forall>e \<in> set ?runs. 0 \<le> planned_qty_cases e"
        by (simp add: todays_runs_def)
      then have "0 \<le> flex_cases ?runs" by (rule flex_cases_nonneg)
      with split show ?thesis by simp
    qed
    with split show "allocated_cases row = used_headroom row + bumped_flexible row \<and>
             0 \<le> used_headroom row \<and> 0 \<le> bumped_flexible row \<and>
             ((\<forall>e \<in> set (schedule data). 0 \<le> planned_qty_cases e) \<longrightarrow>
              bumped_flexible row \<le>
                sum_list (map planned_qty_cases
                  (filter (\<lambda>e. s_line_id e = p_line_id row \<and>
                               production_date e = p_production_date row \<and>
                               \<not> is_firm e) (schedule data))))"
      by (simp add: flex_cases_todays_runs)
  qed
  with r show ?thesis by blast
qed

theorem firm_inviolability_witness:
  "example_to_date ''2025-01-03'' = Some 3 \<and>
   list_all (\<lambda>e. 0 \<le> planned_qty_cases e) (schedule example_snapshot) \<and>
   (\<exists>r. simulate_request exact_ops example_to_date 10 25000 ''2025-01-03'' example_snapshot = Inr r \<and>
      plan_rows r \<noteq> [] \<and>
      (\<forall>row \<in> set (plan_rows r).
             allocated_cases row = used_headroom row + bumped_flexible row \<and>
             0 \<le> used_headroom row \<and> 0 \<le> bumped_flexible row \<and>
             bumped_flexible row \<le>
                sum_list (map planned_qty_cases
                  (filter (\<lambda>e. s_line_id e = p_line_id row \<and>
                               production_date e = p_production_date row \<and>
                               \<not> is_firm e) (schedule example_snapshot)))))"
proof -
  have n: "\<forall>e \<in> set (schedule example_snapshot). 0 \<le> planned_qty_cases e"
    by (simp add: example_snapshot_def)
  then have n': "list_all (\<lambda>e. 0 \<le> planned_qty_cases e) (schedule example_snapshot)"
    by (simp add: list_all_iff)
  from firm_inviolability
         [where ops = exact_ops and to_date = example_to_date and s = "''2025-01-03''" and pid = 10
            and extra = 25000 and data = example_snapshot, OF example_date]
  obtain r where
    r: "simulate_request exact_ops example_to_date 10 25000 ''2025-01-03'' example_snapshot = Inr r"
    and rows: "\<forall>row \<in> set (plan_rows r).
             allocated_cases row = used_headroom row + bumped_flexible row \<and>
             0 \<le> used_headroom row \<and> 0 \<le> bumped_flexible row \<and>
             ((\<forall>e \<in> set (schedule example_snapshot). 0 \<le> planned_qty_cases e) \<longrightarrow>
              bumped_flexible row \<le>
                sum_list (map planned_qty_cases
                  (filter (\<lambda>e. s_line_id e = p_line_id row \<and>
                               production_date e = p_production_date row \<and>
                               \<not> is_firm e) (schedule example_snapshot))))"
    by blast
  from r example_run have ne: "plan_rows r \<noteq> []" by auto
  from rows n have "\<forall>row \<in> set (plan_rows r).
             allocated_cases row = used_headroom row + bumped_flexible row \<and>
             0 \<le> used_headroom row \<and> 0 \<le> bumped_flexible row \<and>
              bumped_flexible row \<le>
                sum_list (map planned_qty_cases
                  (filter (\<lambda>e. s_line_id e = p_line_id row \<and>
                               production_date e = p_production_date row \<and>
                               \<not> is_firm e) (schedule example_snapshot)))"
    by blast
  with example_date n' r ne show ?thesis by blast
qed

text \<open>
  C4 (material math).  For a product with at least one BOM row, on the path where the
  material check is run (some line can run the product), the material blockers of the
  result are the shortage list of the specification, computed from the allocated total
  \<open>extra_cases - remaining\<close> (the sum of the plan), not from the requested amount.
  The required quantity of a BOM row is \<open>qty_per_case\<close> times the allocated total; a
  blocker is in the list exactly when it reports \<open>required - on_hand\<close> for a BOM row of
  the product and an on-hand quantity on record with \<open>required > on_hand\<close>.  A material
  with no inventory row has the single on-hand quantity \<open>0.0\<close>.  Product, comparison and
  difference are the operations \<open>ops\<close> that the function itself applies (for \<^verbatim>\<open>float64\<close>
  columns those of IEEE doubles, rounded as they are): the statement holds for each
  such arithmetic.
\<close>

theorem material_math:
  assumes "to_date s = Some due"
    and "\<exists>c \<in> set (capability data). c_product_id c = pid"
    and "\<exists>b \<in> set (bom data). b_product_id b = pid"
  shows "\<exists>r. simulate_request ops to_date pid extra s data = Inr r \<and>
           allocated_total r = extra - remaining r \<and>
           allocated_total r = sum_list (map allocated_cases (plan_rows r)) \<and>
           material_blockers r = expected_shortages ops pid (allocated_total r) data \<and>
           (\<forall>x. (x \<in> set (material_blockers r)) =
              (\<exists>b \<in> set (bom data). b_product_id b = pid \<and>
                (\<exists>on_hand \<in> set (on_hand_for ops (inventory data) (b_material_id b)).
                   f_gt ops (required_qty ops (allocated_total r) b) on_hand \<and>
                   x = MaterialShort (material_name b)
                         (f_minus ops (required_qty ops (allocated_total r) b) on_hand)
                         (supplier_lead_time_days b)))) \<and>
           (\<forall>b. required_qty ops (allocated_total r) b =
                 to_float ops (col_times ops (qty_per_case b) (allocated_total r))) \<and>
           (\<forall>m. (\<forall>i \<in> set (inventory data). i_material_id i \<noteq> m) \<longrightarrow>
                 on_hand_for ops (inventory data) m = [f_zero ops])"
proof -
  from assms(2) have cap: "capable_lines pid data \<noteq> []"
    by (simp add: capable_lines_Nil)
  obtain rem plan where
    run: "alloc_dates (lines data) (sched_window due data) (capable_lines pid data)
            (window_dates (sched_window due data)) (extra, []) = (rem, plan)"
    by (cases "alloc_dates (lines data) (sched_window due data) (capable_lines pid data)
            (window_dates (sched_window due data)) (extra, [])")
  from alloc_dates_steps [OF run]
  have sum: "sum_list (map allocated_cases plan) + rem = extra" by auto
  from simulate_request_capable
         [where ops = ops and to_date = to_date and s = s, OF assms(1) cap run]
  obtain r where r: "simulate_request ops to_date pid extra s data = Inr r"
    "remaining r = rem" "plan_rows r = plan" "allocated_total r = extra - rem"
    "material_blockers r = material_check ops pid (extra - rem) data"
    by blast
  from r(4,5)
  have mb: "material_blockers r = expected_shortages ops pid (allocated_total r) data"
    by (simp add: material_check_expected [OF assms(3)])
  have m1: "\<forall>x. (x \<in> set (material_blockers r)) =
              (\<exists>b \<in> set (bom data). b_product_id b = pid \<and>
                (\<exists>on_hand \<in> set (on_hand_for ops (inventory data) (b_material_id b)).
                   f_gt ops (required_qty ops (allocated_total r) b) on_hand \<and>
                   x = MaterialShort (material_name b)
                         (f_minus ops (required_qty ops (allocated_total r) b) on_hand)
                         (supplier_lead_time_days b)))"
    unfolding mb by (simp only: set_expected_shortages) simp
  have m2: "\<forall>m. (\<forall>i \<in> set (inventory data). i_material_id i \<noteq> m) \<longrightarrow>
                 on_hand_for ops (inventory data) m = [f_zero ops]"
    by (simp add: on_hand_for_no_record)
  have m3: "\<forall>b. required_qty ops (allocated_total r) b =
                 to_float ops (col_times ops (qty_per_case b) (allocated_total r))"
    by (simp add: required_qty_def)
  from r(2,3,4) sum have a: "allocated_total r = extra - remaining r"
    "allocated_total r = sum_list (map allocated_cases (plan_rows r))" by auto
  from r(1) a mb m1 m2 m3 show ?thesis by blast
qed

theorem material_math_witness:
  "example_to_date ''2025-01-03'' = Some 3 \<and>
   (\<exists>c \<in> set (capability example_snapshot). c_product_id c = 10) \<and>
   (\<exists>b \<in> set (bom example_snapshot). b_product_id b = 10) \<and>
   on_hand_for exact_ops (inventory example_snapshot) 101 = [0] \<and>
   map (required_qty exact_ops 20000) (sku_bom 10 example_snapshot) = [10000, 40000, 20000] \<and>
   (\<exists>r. simulate_request exact_ops example_to_date 10 25000 ''2025-01-03'' example_snapshot
          = Inr r \<and>
        allocated_total r = 20000 \<and>
        material_blockers r = expected_shortages exact_ops 10 20000 example_snapshot \<and>
        material_blockers r =
          [MaterialShort ''Sugar'' 9500 (Some 14), MaterialShort ''Bottle'' 40000 None])"
proof -
  have c: "\<exists>c \<in> set (capability example_snapshot). c_product_id c = 10"
    by (simp add: example_snapshot_def)
  have b: "\<exists>b \<in> set (bom example_snapshot). b_product_id b = 10"
    by (simp add: example_snapshot_def)
  have i: "\<forall>i \<in> set (inventory example_snapshot). i_material_id i \<noteq> 101"
    by (simp add: example_snapshot_def)
  have q: "map (required_qty exact_ops 20000) (sku_bom 10 example_snapshot)
             = [10000, 40000, 20000]"
    by (simp add: required_qty_def exact_ops_def sku_bom_def example_snapshot_def)
  from material_math
         [where ops = exact_ops and to_date = example_to_date and s = "''2025-01-03''"
            and pid = 10 and extra = 25000 and data = example_snapshot, OF example_date c b]
  obtain r where
    r: "simulate_request exact_ops example_to_date 10 25000 ''2025-01-03'' example_snapshot
          = Inr r"
    and m: "material_blockers r =
              expected_shortages exact_ops 10 (allocated_total r) example_snapshot"
    and z: "\<forall>m. (\<forall>i \<in> set (inventory example_snapshot). i_material_id i \<noteq> m) \<longrightarrow>
                 on_hand_for exact_ops (inventory example_snapshot) m = [f_zero exact_ops]"
    by blast
  from z i have "on_hand_for exact_ops (inventory example_snapshot) 101 = [f_zero exact_ops]"
    by blast
  then have z': "on_hand_for exact_ops (inventory example_snapshot) 101 = [0]"
    by (simp add: exact_ops_def)
  from r example_run have v: "allocated_total r = 20000"
    "material_blockers r =
          [MaterialShort ''Sugar'' 9500 (Some 14), MaterialShort ''Bottle'' 40000 None]"
    by auto
  from m v(1)
  have "material_blockers r = expected_shortages exact_ops 10 20000 example_snapshot"
    by simp
  with example_date c b z' q r v show ?thesis by blast
qed

text \<open>
  C5 (feasibility rule).  For a request of a non-negative number of cases (the invariant
  of a request), the result is flagged fulfillable exactly when \<open>remaining\<close> is 0 and the
  material blockers are empty; \<open>remaining\<close> is never negative.  Whatever the flag, the
  plan that the allocator built is returned as it is: with a capable line, \<open>remaining\<close>
  and \<open>plan_rows\<close> are the final state of the date loop, and the allocated cases of the
  plan add up to \<open>allocated_total = extra_cases - remaining\<close>.
\<close>

theorem feasibility_rule:
  assumes "to_date s = Some due" and "0 \<le> extra"
  shows "\<exists>r. simulate_request ops to_date pid extra s data = Inr r \<and>
             can_fulfill r = (remaining r = 0 \<and> material_blockers r = []) \<and>
             0 \<le> remaining r \<and>
             sum_list (map allocated_cases (plan_rows r)) = allocated_total r \<and>
             allocated_total r = extra - remaining r \<and>
             ((\<exists>c \<in> set (capability data). c_product_id c = pid) \<longrightarrow>
                (remaining r, plan_rows r) =
                  alloc_dates (lines data) (sched_window due data) (capable_lines pid data)
                    (window_dates (sched_window due data)) (extra, []))"
proof (cases "capable_lines pid data = []")
  case True
  from simulate_request_incapable [where ops = ops and to_date = to_date and s = s, OF assms(1) True]
  show ?thesis using True assms(2) by (simp add: capable_lines_Nil)
next
  case False
  obtain rem plan where
    run: "alloc_dates (lines data) (sched_window due data) (capable_lines pid data)
            (window_dates (sched_window due data)) (extra, []) = (rem, plan)"
    by (cases "alloc_dates (lines data) (sched_window due data) (capable_lines pid data)
            (window_dates (sched_window due data)) (extra, [])")
  from alloc_dates_steps [OF run] assms(2)
  have sum: "sum_list (map allocated_cases plan) + rem = extra" and nn: "0 \<le> rem"
    by auto
  from simulate_request_capable [where ops = ops and to_date = to_date and s = s, OF assms(1) False run]
  obtain r where r: "simulate_request ops to_date pid extra s data = Inr r"
    "remaining r = rem" "plan_rows r = plan" "allocated_total r = extra - rem"
    "material_blockers r = material_check ops pid (extra - rem) data"
    "can_fulfill r = (rem \<le> 0 \<and> material_check ops pid (extra - rem) data = [])"
    by blast
  from nn have "(rem \<le> 0) = (rem = 0)" by auto
  with r sum nn run show ?thesis by auto
qed

theorem feasibility_rule_witness:
  "example_to_date ''2025-01-03'' = Some 3 \<and> (0::int) \<le> 25000 \<and>
   (\<exists>c \<in> set (capability example_snapshot). c_product_id c = 10) \<and>
   (\<exists>r. simulate_request exact_ops example_to_date 10 25000 ''2025-01-03'' example_snapshot = Inr r \<and>
        can_fulfill r = (remaining r = 0 \<and> material_blockers r = []) \<and>
        \<not> can_fulfill r \<and> remaining r = 5000 \<and>
        sum_list (map allocated_cases (plan_rows r)) = 20000 \<and>
        (remaining r, plan_rows r) =
          alloc_dates (lines example_snapshot) (sched_window 3 example_snapshot)
            (capable_lines 10 example_snapshot)
            (window_dates (sched_window 3 example_snapshot)) (25000, []))"
proof -
  have n: "(0::int) \<le> 25000" by simp
  have c: "\<exists>c \<in> set (capability example_snapshot). c_product_id c = 10"
    by (simp add: example_snapshot_def)
  from feasibility_rule
         [where ops = exact_ops and to_date = example_to_date and s = "''2025-01-03''" and pid = 10
            and data = example_snapshot, OF example_date n]
  obtain r where
    r: "simulate_request exact_ops example_to_date 10 25000 ''2025-01-03'' example_snapshot = Inr r"
    and f: "can_fulfill r = (remaining r = 0 \<and> material_blockers r = [])"
    and p: "(\<exists>c \<in> set (capability example_snapshot). c_product_id c = 10) \<longrightarrow>
                (remaining r, plan_rows r) =
                  alloc_dates (lines example_snapshot) (sched_window 3 example_snapshot)
                    (capable_lines 10 example_snapshot)
                    (window_dates (sched_window 3 example_snapshot)) (25000, [])"
    by blast
  from r example_run have v: "\<not> can_fulfill r" "remaining r = 5000"
    "sum_list (map allocated_cases (plan_rows r)) = 20000" by auto
  from p c have "(remaining r, plan_rows r) =
                  alloc_dates (lines example_snapshot) (sched_window 3 example_snapshot)
                    (capable_lines 10 example_snapshot)
                    (window_dates (sched_window 3 example_snapshot)) (25000, [])" by (rule mp)
  with example_date n c r f v show ?thesis by blast
qed

text \<open>
  C6 (no-capability short circuit).  When the capability table has no row for the
  requested product, the function returns at once, whatever the schedule holds: the plan
  is empty, nothing is allocated, \<open>remaining\<close> is the whole request, and the capacity
  blockers are the single note that no capable line was found.  The result is the
  constant record below; no loop state enters it.
\<close>

theorem no_capable_line_short_circuit:
  assumes "to_date s = Some due"
    and "\<forall>c \<in> set (capability data). c_product_id c \<noteq> pid"
  shows "simulate_request ops to_date pid extra s data =
         Inr \<lparr> can_fulfill = False, allocated_total = 0, remaining = extra,
               plan_rows = [], material_blockers = [NoLineCanRun],
               capacity_blockers = [NoCapableLine], message = MsgNoLine \<rparr>"
proof -
  from assms(2) have "capable_lines pid data = []" by (simp add: capable_lines_Nil)
  with assms(1) show ?thesis
    by (rule simulate_request_incapable [where ops = ops and to_date = to_date and s = s])
qed

theorem no_capable_line_short_circuit_witness:
  "example_to_date ''2025-01-03'' = Some 3 \<and>
   list_all (\<lambda>c. c_product_id c \<noteq> 30) (capability example_snapshot) \<and>
   simulate_request exact_ops example_to_date 30 100 ''2025-01-03'' example_snapshot =
     Inr \<lparr> can_fulfill = False, allocated_total = 0, remaining = 100,
           plan_rows = [], material_blockers = [NoLineCanRun],
           capacity_blockers = [NoCapableLine], message = MsgNoLine \<rparr>"
proof -
  have h: "example_to_date ''2025-01-03'' = Some 3"
    by (simp add: example_to_date_def)
  have c: "\<forall>c \<in> set (capability example_snapshot). c_product_id c \<noteq> 30"
    by (simp add: example_snapshot_def)
  from c have c': "list_all (\<lambda>c. c_product_id c \<noteq> 30) (capability example_snapshot)"
    by (simp add: list_all_iff)
  from no_capable_line_short_circuit
         [where ops = exact_ops and to_date = example_to_date and s = "''2025-01-03''", OF h c]
  show ?thesis using h c' by blast
qed

text \<open>
  C7 (due-date boundary).  The window holds exactly the schedule entries dated on or
  before the due date, and the dates the allocator visits are exactly the dates of those
  entries: an entry dated on the due date is in, one dated the day after is out.  No row
  of the returned plan is dated after the due date.  And the entries in the window are
  really used: when the request is not fully covered (\<open>remaining > 0\<close>), every capable
  line that has a row in \<open>lines\<close> and something possible (headroom plus flexible cases
  above 0) on the date of a schedule entry on or before the due date has a row in the
  plan for that date.
\<close>

theorem due_date_boundary:
  assumes "to_date s = Some due"
  shows "set (sched_window due data) = {e \<in> set (schedule data). production_date e \<le> due} \<and>
         set (window_dates (sched_window due data)) =
           {d. d \<le> due \<and> (\<exists>e \<in> set (schedule data). production_date e = d)} \<and>
         (\<exists>r. simulate_request ops to_date pid extra s data = Inr r \<and>
            (\<forall>row \<in> set (plan_rows r). p_production_date row \<le> due) \<and>
            (0 < remaining r \<longrightarrow>
               (\<forall>e \<in> set (schedule data). production_date e \<le> due \<longrightarrow>
                  (\<forall>lid \<in> set (capable_lines pid data). \<forall>l ls.
                     filter (\<lambda>l. l_line_id l = lid) (lines data) = l # ls \<longrightarrow>
                     0 < headroom (daily_capacity_cases l)
                           (total_planned (todays_runs (schedule data) lid (production_date e)))
                         + flex_cases (todays_runs (schedule data) lid (production_date e)) \<longrightarrow>
                     (\<exists>row \<in> set (plan_rows r).
                         p_line_id row = lid \<and>
                         p_production_date row = production_date e)))))"
proof (intro conjI)
  show "set (sched_window due data) = {e \<in> set (schedule data). production_date e \<le> due}"
    by (rule set_sched_window)
  show "set (window_dates (sched_window due data)) =
           {d. d \<le> due \<and> (\<exists>e \<in> set (schedule data). production_date e = d)}"
    by (rule set_window_dates)
  show "\<exists>r. simulate_request ops to_date pid extra s data = Inr r \<and>
            (\<forall>row \<in> set (plan_rows r). p_production_date row \<le> due) \<and>
            (0 < remaining r \<longrightarrow>
               (\<forall>e \<in> set (schedule data). production_date e \<le> due \<longrightarrow>
                  (\<forall>lid \<in> set (capable_lines pid data). \<forall>l ls.
                     filter (\<lambda>l. l_line_id l = lid) (lines data) = l # ls \<longrightarrow>
                     0 < headroom (daily_capacity_cases l)
                           (total_planned (todays_runs (schedule data) lid (production_date e)))
                         + flex_cases (todays_runs (schedule data) lid (production_date e)) \<longrightarrow>
                     (\<exists>row \<in> set (plan_rows r).
                         p_line_id row = lid \<and>
                         p_production_date row = production_date e))))"
  proof (cases "capable_lines pid data = []")
    case True
    from simulate_request_incapable [where ops = ops and to_date = to_date and s = s, OF assms True]
    show ?thesis using True by simp
  next
    case False
    let ?win = "sched_window due data"
    obtain rem plan where
      run: "alloc_dates (lines data) ?win (capable_lines pid data) (window_dates ?win)
              (extra, []) = (rem, plan)"
      by (cases "alloc_dates (lines data) ?win (capable_lines pid data) (window_dates ?win)
              (extra, [])")
    from simulate_request_capable [where ops = ops and to_date = to_date and s = s, OF assms False run]
    obtain r where r: "simulate_request ops to_date pid extra s data = Inr r"
      "remaining r = rem" "plan_rows r = plan" by blast
    from alloc_dates_steps [OF run]
    have "\<forall>row \<in> set plan. p_production_date row \<in> set (window_dates ?win)" by auto
    then have dates: "\<forall>row \<in> set plan. p_production_date row \<le> due"
      by (simp add: set_window_dates)
    have used: "\<exists>row \<in> set plan. p_line_id row = lid \<and> p_production_date row = production_date e"
      if pos: "0 < rem" and e: "e \<in> set (schedule data)" "production_date e \<le> due"
        and lid: "lid \<in> set (capable_lines pid data)"
        and l: "filter (\<lambda>l. l_line_id l = lid) (lines data) = l # ls"
        and av: "0 < headroom (daily_capacity_cases l)
                           (total_planned (todays_runs (schedule data) lid (production_date e)))
                         + flex_cases (todays_runs (schedule data) lid (production_date e))"
      for e lid l ls
    proof -
      from e have d: "production_date e \<in> set (window_dates ?win)"
        by (auto simp: set_window_dates)
      from l av e(2) have "line_day (lines data) ?win (production_date e) lid 1 \<noteq> None"
        by (simp add: line_day_None_iff todays_runs_window)
      from alloc_dates_exhaust [OF run pos d lid this] show ?thesis .
    qed
    from r dates used show ?thesis by blast
  qed
qed

theorem due_date_boundary_witness:
  "example_to_date ''2025-01-03'' = Some 3 \<and>
   (\<exists>e \<in> set (schedule example_snapshot).
       production_date e = 3 \<and> e \<in> set (sched_window 3 example_snapshot)) \<and>
   (\<exists>e \<in> set (schedule example_snapshot).
       production_date e = 4 \<and> e \<notin> set (sched_window 3 example_snapshot) \<and>
       planned_qty_cases e = 1000) \<and>
   set (window_dates (sched_window 3 example_snapshot)) = {1, 3} \<and>
   (\<exists>r. simulate_request exact_ops example_to_date 10 25000 ''2025-01-03'' example_snapshot = Inr r \<and>
        0 < remaining r \<and>
        (\<exists>row \<in> set (plan_rows r). p_line_id row = 1 \<and> p_production_date row = 3) \<and>
        list_all (\<lambda>row. p_production_date row \<le> 3) (plan_rows r))"
proof -
  note inst = due_date_boundary
         [where ops = exact_ops and to_date = example_to_date and s = "''2025-01-03''" and pid = 10
            and extra = 25000 and data = example_snapshot, OF example_date]
  from inst have win: "set (sched_window 3 example_snapshot) =
      {e \<in> set (schedule example_snapshot). production_date e \<le> 3}" by blast
  have e3: "\<exists>e \<in> set (schedule example_snapshot).
       production_date e = 3 \<and> e \<in> set (sched_window 3 example_snapshot)"
    unfolding win by (simp add: example_snapshot_def)
  have e4: "\<exists>e \<in> set (schedule example_snapshot).
       production_date e = 4 \<and> e \<notin> set (sched_window 3 example_snapshot) \<and>
       planned_qty_cases e = 1000"
    unfolding win by (simp add: example_snapshot_def)
  from inst have "set (window_dates (sched_window 3 example_snapshot)) =
           {d. d \<le> 3 \<and> (\<exists>e \<in> set (schedule example_snapshot). production_date e = d)}"
    by blast
  also have "\<dots> = {1, 3}" by (auto simp: example_snapshot_def)
  finally have wd: "set (window_dates (sched_window 3 example_snapshot)) = {1, 3}" .
  from inst obtain r where
    r: "simulate_request exact_ops example_to_date 10 25000 ''2025-01-03'' example_snapshot = Inr r"
    and d: "\<forall>row \<in> set (plan_rows r). p_production_date row \<le> 3"
    by blast
  from d have d': "list_all (\<lambda>row. p_production_date row \<le> 3) (plan_rows r)"
    by (simp add: list_all_iff)
  from r example_run have v: "0 < remaining r"
    "\<exists>row \<in> set (plan_rows r). p_line_id row = 1 \<and> p_production_date row = 3"
    by auto
  from example_date e3 e4 wd r v d' show ?thesis by blast
qed

text \<open>
  C8 (headroom is never negative).  The headroom of a line-day is
  \<open>max 0 (daily_capacity - total_planned)\<close>: never negative, and 0 on an over-committed
  day.  That clamped value is what the allocator works with: every row of the returned
  plan belongs to a line with a row in \<open>lines\<close>, and with \<open>planned\<close> and \<open>flexible\<close> the
  planned and the non-firm planned quantity of the schedule on the row's line and date,
  \<open>hr = max 0 (daily_capacity - planned)\<close> and \<open>left\<close> the request less the rows before it
  (a positive amount), the row allocates exactly \<open>min (hr + flexible) left\<close>, of which \<open>min hr allocated\<close> is
  headroom and the rest bumped flexible cases.  On an over-committed line-day the row
  uses no headroom and allocates \<open>min flexible left\<close>: the excess of the planned quantity
  over the capacity is not subtracted.
\<close>

theorem headroom_never_negative:
  assumes "to_date s = Some due"
  shows "(\<forall>c p. headroom c p = max 0 (c - p) \<and> 0 \<le> headroom c p \<and>
                (c \<le> p \<longrightarrow> headroom c p = 0)) \<and>
         (\<exists>r. simulate_request ops to_date pid extra s data = Inr r \<and>
            (\<forall>pre row post. plan_rows r = pre @ row # post \<longrightarrow>
               (\<exists>l ls. filter (\<lambda>l. l_line_id l = p_line_id row) (lines data) = l # ls \<and>
                 (let planned = sum_list (map planned_qty_cases
                        (filter (\<lambda>e. s_line_id e = p_line_id row \<and>
                                     production_date e = p_production_date row)
                           (schedule data)));
                      flexible = sum_list (map planned_qty_cases
                        (filter (\<lambda>e. s_line_id e = p_line_id row \<and>
                                     production_date e = p_production_date row \<and>
                                     \<not> is_firm e)
                           (schedule data)));
                      hr = max 0 (daily_capacity_cases l - planned);
                      left = extra - sum_list (map allocated_cases pre)
                  in 0 \<le> hr \<and> 0 < left \<and> 0 < hr + flexible \<and>
                     allocated_cases row = min (hr + flexible) left \<and>
                     used_headroom row = min hr (allocated_cases row) \<and>
                     bumped_flexible row = allocated_cases row - used_headroom row \<and>
                     (daily_capacity_cases l \<le> planned \<longrightarrow>
                        used_headroom row = 0 \<and>
                        bumped_flexible row = allocated_cases row \<and>
                        allocated_cases row = min flexible left)))))"
proof (intro conjI)
  show "\<forall>c p. headroom c p = max 0 (c - p) \<and> 0 \<le> headroom c p \<and>
                (c \<le> p \<longrightarrow> headroom c p = 0)"
    by (simp add: headroom_def max.commute)
next
  let ?goal = "\<lambda>r pre row post.
               (\<exists>l ls. filter (\<lambda>l. l_line_id l = p_line_id row) (lines data) = l # ls \<and>
                 (let planned = sum_list (map planned_qty_cases
                        (filter (\<lambda>e. s_line_id e = p_line_id row \<and>
                                     production_date e = p_production_date row)
                           (schedule data)));
                      flexible = sum_list (map planned_qty_cases
                        (filter (\<lambda>e. s_line_id e = p_line_id row \<and>
                                     production_date e = p_production_date row \<and>
                                     \<not> is_firm e)
                           (schedule data)));
                      hr = max 0 (daily_capacity_cases l - planned);
                      left = extra - sum_list (map allocated_cases pre)
                  in 0 \<le> hr \<and> 0 < left \<and> 0 < hr + flexible \<and>
                     allocated_cases row = min (hr + flexible) left \<and>
                     used_headroom row = min hr (allocated_cases row) \<and>
                     bumped_flexible row = allocated_cases row - used_headroom row \<and>
                     (daily_capacity_cases l \<le> planned \<longrightarrow>
                        used_headroom row = 0 \<and>
                        bumped_flexible row = allocated_cases row \<and>
                        allocated_cases row = min flexible left)))"
  show "\<exists>r. simulate_request ops to_date pid extra s data = Inr r \<and>
            (\<forall>pre row post. plan_rows r = pre @ row # post \<longrightarrow> ?goal r pre row post)"
  proof (cases "capable_lines pid data = []")
    case True
    from simulate_request_incapable
           [where ops = ops and to_date = to_date and s = s, OF assms True]
    show ?thesis by simp
  next
    case False
    let ?win = "sched_window due data"
    obtain rem plan where
      run: "alloc_dates (lines data) ?win (capable_lines pid data) (window_dates ?win)
              (extra, []) = (rem, plan)"
      by (cases "alloc_dates (lines data) ?win (capable_lines pid data) (window_dates ?win)
              (extra, [])")
    from simulate_request_capable
           [where ops = ops and to_date = to_date and s = s, OF assms False run]
    obtain r where r: "simulate_request ops to_date pid extra s data = Inr r"
      "plan_rows r = plan" by blast
    from alloc_dates_amounts [OF run]
    have ok: "amounts_ok (lines data) ?win extra plan" by auto
    from alloc_dates_steps [OF run]
    have "\<forall>row \<in> set plan. p_production_date row \<in> set (window_dates ?win)" by auto
    then have dates: "\<forall>row \<in> set plan. p_production_date row \<le> due"
      by (simp add: set_window_dates)
    have "?goal r pre row post" if split: "plan = pre @ row # post" for pre row post
    proof -
      let ?left = "extra - sum_list (map allocated_cases pre)"
      let ?lid = "p_line_id row" and ?d = "p_production_date row"
      from ok split
      have lp: "0 < ?left"
        and ld: "line_day (lines data) ?win ?d ?lid ?left = Some row"
        by (simp_all add: amounts_ok_append)
      from line_day_Some_exact [OF ld] obtain l ls where
        l: "filter (\<lambda>l. l_line_id l = ?lid) (lines data) = l # ls"
        and pos: "0 < max 0 (daily_capacity_cases l
                        - sum_list (map planned_qty_cases (todays_runs ?win ?lid ?d)))
               + sum_list (map planned_qty_cases
                   (filter (\<lambda>e. \<not> is_firm e) (todays_runs ?win ?lid ?d)))"
        and a: "allocated_cases row =
             min (max 0 (daily_capacity_cases l
                           - sum_list (map planned_qty_cases (todays_runs ?win ?lid ?d)))
                  + sum_list (map planned_qty_cases
                      (filter (\<lambda>e. \<not> is_firm e) (todays_runs ?win ?lid ?d)))) ?left"
        and u: "used_headroom row =
             min (max 0 (daily_capacity_cases l
                           - sum_list (map planned_qty_cases (todays_runs ?win ?lid ?d))))
                 (allocated_cases row)"
        and b: "bumped_flexible row = allocated_cases row - used_headroom row"
        by blast
      from split dates have "?d \<le> due" by simp
      then have w: "todays_runs ?win ?lid ?d = todays_runs (schedule data) ?lid ?d"
        by (rule todays_runs_window)
      have p: "todays_runs (schedule data) ?lid ?d =
                 filter (\<lambda>e. s_line_id e = ?lid \<and> production_date e = ?d) (schedule data)"
        by (simp add: todays_runs_def)
      have f: "filter (\<lambda>e. \<not> is_firm e) (todays_runs (schedule data) ?lid ?d) =
                 filter (\<lambda>e. s_line_id e = ?lid \<and> production_date e = ?d \<and> \<not> is_firm e)
                   (schedule data)"
        by (rule filter_flexible_todays_runs)
      from f have f': "filter (\<lambda>e. \<not> is_firm e)
                   (filter (\<lambda>e. s_line_id e = ?lid \<and> production_date e = ?d) (schedule data)) =
                 filter (\<lambda>e. s_line_id e = ?lid \<and> production_date e = ?d \<and> \<not> is_firm e)
                   (schedule data)"
        unfolding p .
      define planned where "planned = sum_list (map planned_qty_cases
                        (filter (\<lambda>e. s_line_id e = ?lid \<and> production_date e = ?d)
                           (schedule data)))"
      define flexible where "flexible = sum_list (map planned_qty_cases
                        (filter (\<lambda>e. s_line_id e = ?lid \<and> production_date e = ?d \<and>
                                     \<not> is_firm e) (schedule data)))"
      define hr where "hr = max 0 (daily_capacity_cases l - planned)"
      from pos have pos': "0 < hr + flexible"
        unfolding w p f' hr_def planned_def flexible_def .
      from a have a': "allocated_cases row = min (hr + flexible) ?left"
        unfolding w p f' hr_def planned_def flexible_def .
      from u have u': "used_headroom row = min hr (allocated_cases row)"
        unfolding w p f' hr_def planned_def flexible_def .
      have h0: "0 \<le> hr" by (simp add: hr_def)
      have over: "used_headroom row = 0 \<and> bumped_flexible row = allocated_cases row \<and>
                  allocated_cases row = min flexible ?left"
        if "daily_capacity_cases l \<le> planned"
      proof -
        from that have z: "hr = 0" by (simp add: hr_def)
        from z a' u' b pos' lp show ?thesis by auto
      qed
      from l h0 lp pos' a' u' b over show ?thesis
        unfolding Let_def hr_def planned_def flexible_def by blast
    qed
    with r show ?thesis by blast
  qed
qed

theorem headroom_never_negative_witness:
  "example_to_date ''2025-01-03'' = Some 3 \<and>
   headroom 10000 11000 = 0 \<and> headroom 10000 6000 = 4000 \<and>
   (\<exists>r. simulate_request exact_ops example_to_date 10 25000 ''2025-01-03'' example_snapshot
          = Inr r \<and>
      (\<exists>pre row post. plan_rows r = pre @ row # post \<and>
          p_line_id row = 1 \<and> p_production_date row = 3 \<and>
          25000 - sum_list (map allocated_cases pre) = 16000 \<and>
          allocated_cases row = min (max 0 (10000 - 11000) + 6000) 16000 \<and>
          allocated_cases row = 6000 \<and>
          used_headroom row = 0 \<and> bumped_flexible row = 6000))"
proof -
  note inst = headroom_never_negative
         [where ops = exact_ops and to_date = example_to_date and s = "''2025-01-03''"
            and pid = 10 and extra = 25000 and data = example_snapshot, OF example_date]
  from inst have hr: "\<forall>c p. headroom c p = max 0 (c - p) \<and> 0 \<le> headroom c p \<and>
                (c \<le> p \<longrightarrow> headroom c p = 0)" by (rule conjunct1)
  from hr have h1: "headroom 10000 11000 = 0" by simp
  from hr have h2: "headroom 10000 6000 = 4000" by simp
  from inst obtain r where
    r: "simulate_request exact_ops example_to_date 10 25000 ''2025-01-03'' example_snapshot
          = Inr r"
    by blast
  let ?pre = "[\<lparr>p_line_id = 1, p_production_date = 1, allocated_cases = 4000,
                 used_headroom = 4000, bumped_flexible = 0\<rparr>,
               \<lparr>p_line_id = 2, p_production_date = 1, allocated_cases = 5000,
                 used_headroom = 3000, bumped_flexible = 2000\<rparr>]"
  let ?row = "\<lparr>p_line_id = 1, p_production_date = 3, allocated_cases = 6000,
                used_headroom = 0, bumped_flexible = 6000\<rparr>"
  let ?post = "[\<lparr>p_line_id = 2, p_production_date = 3, allocated_cases = 5000,
                  used_headroom = 5000, bumped_flexible = 0\<rparr>]"
  from r example_run have p: "plan_rows r = ?pre @ ?row # ?post" by auto
  have v: "p_line_id ?row = 1 \<and> p_production_date ?row = 3 \<and>
          25000 - sum_list (map allocated_cases ?pre) = 16000 \<and>
          allocated_cases ?row = min (max 0 (10000 - 11000) + 6000) 16000 \<and>
          allocated_cases ?row = 6000 \<and>
          used_headroom ?row = 0 \<and> bumped_flexible ?row = 6000"
    by simp
  from p v have "\<exists>pre row post. plan_rows r = pre @ row # post \<and>
          p_line_id row = 1 \<and> p_production_date row = 3 \<and>
          25000 - sum_list (map allocated_cases pre) = 16000 \<and>
          allocated_cases row = min (max 0 (10000 - 11000) + 6000) 16000 \<and>
          allocated_cases row = 6000 \<and>
          used_headroom row = 0 \<and> bumped_flexible row = 6000"
    by blast
  with example_date h1 h2 r show ?thesis by blast
qed

text \<open>
  C9 (no bill of materials).  A product without any BOM row does not always get
  the single note "No BOM for this SKU.": when no line can run the product
  either, the function returns before the material check, and the material blockers are
  the single note "No line can run this product".  Product 30 of the worked snapshot has
  neither a BOM row nor a capable line.
\<close>

theorem no_bom_without_capable_line:
  "sku_bom 30 example_snapshot = [] \<and>
   simulate_request exact_ops example_to_date 30 250 ''2025-01-03'' example_snapshot =
     Inr \<lparr> can_fulfill = False, allocated_total = 0, remaining = 250,
           plan_rows = [], material_blockers = [NoLineCanRun],
           capacity_blockers = [NoCapableLine], message = MsgNoLine \<rparr>"
  by code_simp

text \<open>
  C9, as the code behaves.  When some line can run the product and the product has no
  BOM row, the material blockers of the result are exactly the single note
  "No BOM for this SKU.", and the request is not flagged fulfillable.
\<close>

theorem no_bom_note:
  assumes "to_date s = Some due"
    and "\<exists>c \<in> set (capability data). c_product_id c = pid"
    and "\<forall>b \<in> set (bom data). b_product_id b \<noteq> pid"
  shows "\<exists>r. simulate_request ops to_date pid extra s data = Inr r \<and>
             material_blockers r = [NoBOM] \<and> \<not> can_fulfill r"
proof -
  from assms(2) have cap: "capable_lines pid data \<noteq> []"
    by (simp add: capable_lines_Nil)
  obtain rem plan where
    run: "alloc_dates (lines data) (sched_window due data) (capable_lines pid data)
            (window_dates (sched_window due data)) (extra, []) = (rem, plan)"
    by (cases "alloc_dates (lines data) (sched_window due data) (capable_lines pid data)
            (window_dates (sched_window due data)) (extra, [])")
  from simulate_request_capable [where ops = ops and to_date = to_date and s = s, OF assms(1) cap run]
  show ?thesis using material_check_no_bom [where ops = ops, OF assms(3)] by auto
qed

theorem no_bom_note_witness:
  "example_to_date ''2025-01-03'' = Some 3 \<and>
   (\<exists>c \<in> set (capability example_snapshot). c_product_id c = 40) \<and>
   list_all (\<lambda>b. b_product_id b \<noteq> 40) (bom example_snapshot) \<and>
   (\<exists>r. simulate_request exact_ops example_to_date 40 100 ''2025-01-03'' example_snapshot = Inr r \<and>
        material_blockers r = [NoBOM] \<and> \<not> can_fulfill r)"
proof -
  have c: "\<exists>c \<in> set (capability example_snapshot). c_product_id c = 40"
    by (simp add: example_snapshot_def)
  have b: "\<forall>b \<in> set (bom example_snapshot). b_product_id b \<noteq> 40"
    by (simp add: example_snapshot_def)
  then have b': "list_all (\<lambda>b. b_product_id b \<noteq> 40) (bom example_snapshot)"
    by (simp add: list_all_iff)
  from no_bom_note
         [where ops = exact_ops and to_date = example_to_date and s = "''2025-01-03''", OF example_date c b]
  show ?thesis using example_date c b' by blast
qed

text \<open>
  C10 (nothing scheduled in the window).  When some line can run the product but every
  schedule entry is dated after the due date, the loop over dates has nothing to visit:
  the plan is empty, nothing is allocated and \<open>remaining\<close> is the whole request, whatever
  the daily capacities of the capable lines are.
\<close>

theorem empty_window_allocates_nothing:
  assumes "to_date s = Some due"
    and "\<exists>c \<in> set (capability data). c_product_id c = pid"
    and "\<forall>e \<in> set (schedule data). due < production_date e"
  shows "\<exists>r. simulate_request ops to_date pid extra s data = Inr r \<and>
             plan_rows r = [] \<and> remaining r = extra \<and> allocated_total r = 0"
proof -
  from assms(2) have cap: "capable_lines pid data \<noteq> []"
    by (simp add: capable_lines_Nil)
  from assms(3) have win: "sched_window due data = []"
    by (simp add: sched_window_Nil)
  have run: "alloc_dates (lines data) (sched_window due data) (capable_lines pid data)
           (window_dates (sched_window due data)) (extra, []) = (extra, [])"
    by (simp add: win window_dates_Nil)
  from simulate_request_capable [where ops = ops and to_date = to_date and s = s, OF assms(1) cap run]
  show ?thesis by auto
qed

theorem empty_window_allocates_nothing_witness:
  "example_to_date ''2024-12-31'' = Some 0 \<and>
   (\<exists>c \<in> set (capability example_snapshot). c_product_id c = 10) \<and>
   list_all (\<lambda>e. 0 < production_date e) (schedule example_snapshot) \<and>
   list_all (\<lambda>l. 0 < daily_capacity_cases l) (lines example_snapshot) \<and>
   (\<exists>r. simulate_request exact_ops example_to_date 10 100 ''2024-12-31'' example_snapshot = Inr r \<and>
        plan_rows r = [] \<and> remaining r = 100 \<and> allocated_total r = 0)"
proof -
  have h: "example_to_date ''2024-12-31'' = Some 0"
    by (simp add: example_to_date_def)
  have c: "\<exists>c \<in> set (capability example_snapshot). c_product_id c = 10"
    by (simp add: example_snapshot_def)
  have e: "\<forall>e \<in> set (schedule example_snapshot). 0 < production_date e"
    by (simp add: example_snapshot_def)
  from e have e': "list_all (\<lambda>e. 0 < production_date e) (schedule example_snapshot)"
    by (simp add: list_all_iff)
  have l: "list_all (\<lambda>l. 0 < daily_capacity_cases l) (lines example_snapshot)"
    by (simp add: example_snapshot_def)
  from empty_window_allocates_nothing
         [where ops = exact_ops and to_date = example_to_date and s = "''2024-12-31''", OF h c e]
  show ?thesis using h c e' l by blast
qed

end
